theory Spec2Isabelle
  imports Complex_Main
begin

section \<open>Data model\<close>

text \<open>
  The TypeScript sources compute on IEEE doubles. Prices, quantities and balances are
  modelled as exact rationals: comparisons and arithmetic are those of the source,
  without floating-point rounding. Array indices are natural numbers.
\<close>

record OHLCV =
  timestamp :: int
  opn :: rat
  high :: rat
  low :: rat
  close :: rat
  volume :: rat

datatype SwingType = HIGH | LOW

text \<open>
  The string unions \<open>'BULLISH' | 'BEARISH'\<close> (break direction, zone type, trend) and
  \<open>'BULLISH' | 'BEARISH' | 'RANGING'\<close> (structure, \<open>TrendDirection\<close>) share one datatype.
\<close>

datatype TrendDirection = BULLISH | BEARISH | RANGING

datatype BreakType = BOS | CHOCH | SWEEP

record SwingPoint =
  sp_type :: SwingType
  sp_price :: rat
  sp_index :: nat
  sp_timestamp :: int

record StructureBreak =
  sb_type :: BreakType
  sb_direction :: TrendDirection
  sb_index :: nat
  sb_price :: rat
  sb_timestamp :: int
  sb_isConfirmed :: bool

record OrderBlock =
  ob_type :: TrendDirection
  ob_top :: rat
  ob_bottom :: rat
  ob_index :: nat
  ob_timestamp :: int
  ob_mitigated :: bool
  ob_mitigationIndex :: "nat option"

record FairValueGap =
  fvg_type :: TrendDirection
  fvg_top :: rat
  fvg_bottom :: rat
  fvg_index :: nat
  fvg_timestamp :: int
  fvg_mitigated :: bool
  fvg_mitigationIndex :: "nat option"

text \<open>A candle written as timestamp, open, high, low, close (volume 100), for examples.\<close>

definition candle :: "int \<Rightarrow> rat \<Rightarrow> rat \<Rightarrow> rat \<Rightarrow> rat \<Rightarrow> OHLCV" where
  "candle t o' h l c =
     \<lparr>timestamp = t, opn = o', high = h, low = l, close = c, volume = 100\<rparr>"

section \<open>SMCAnalyzer: swing points\<close>

text \<open>
  \<open>findSwingHighs\<close> / \<open>findSwingLows\<close>: the outer loop runs \<open>i\<close> from \<open>left\<close> while
  \<open>i < candles.length - right\<close>; the two inner loops clear the flag when a candle of the
  left window is at least as high (\<open>>=\<close>) or a candle of the right window is strictly
  higher (\<open>>\<close>). All reads are in range: \<open>i - j \<ge> 0\<close> and \<open>i + j < length\<close>.
\<close>

definition isSwingHigh :: "OHLCV list \<Rightarrow> nat \<Rightarrow> nat \<Rightarrow> nat \<Rightarrow> bool" where
  "isSwingHigh candles left right i =
     (list_all (\<lambda>j. \<not> high (candles ! (i - j)) \<ge> high (candles ! i)) [1..<Suc left] \<and>
      list_all (\<lambda>j. \<not> high (candles ! (i + j)) > high (candles ! i)) [1..<Suc right])"

definition isSwingLow :: "OHLCV list \<Rightarrow> nat \<Rightarrow> nat \<Rightarrow> nat \<Rightarrow> bool" where
  "isSwingLow candles left right i =
     (list_all (\<lambda>j. \<not> low (candles ! (i - j)) \<le> low (candles ! i)) [1..<Suc left] \<and>
      list_all (\<lambda>j. \<not> low (candles ! (i + j)) < low (candles ! i)) [1..<Suc right])"

definition swingHighAt :: "OHLCV list \<Rightarrow> nat \<Rightarrow> SwingPoint" where
  "swingHighAt candles i =
     \<lparr>sp_type = HIGH, sp_price = high (candles ! i), sp_index = i,
      sp_timestamp = timestamp (candles ! i)\<rparr>"

definition swingLowAt :: "OHLCV list \<Rightarrow> nat \<Rightarrow> SwingPoint" where
  "swingLowAt candles i =
     \<lparr>sp_type = LOW, sp_price = low (candles ! i), sp_index = i,
      sp_timestamp = timestamp (candles ! i)\<rparr>"

definition findSwingHighs :: "OHLCV list \<Rightarrow> nat \<Rightarrow> nat \<Rightarrow> SwingPoint list" where
  "findSwingHighs candles left right =
     map (swingHighAt candles)
       (filter (isSwingHigh candles left right) [left..<length candles - right])"

definition findSwingLows :: "OHLCV list \<Rightarrow> nat \<Rightarrow> nat \<Rightarrow> SwingPoint list" where
  "findSwingLows candles left right =
     map (swingLowAt candles)
       (filter (isSwingLow candles left right) [left..<length candles - right])"

text \<open>Five candles with a peak and a trough at index 2.\<close>

definition peakCandles :: "OHLCV list" where
  "peakCandles =
     [candle 0 9 10 8 9, candle 1 9 11 7 10, candle 2 6 15 5 14,
      candle 3 11 12 6 10, candle 4 10 12 6 9]"

section \<open>SMCAnalyzer: structure breaks\<close>

text \<open>
  The mutable locals of \<open>findStructureBreaks\<close>: the active swings, the trend (seeded
  BULLISH), the two cursors into the swing lists and the list of emitted breaks.
\<close>

record BreakState =
  lastHigh :: "SwingPoint option"
  lastLow :: "SwingPoint option"
  trend :: TrendDirection
  currentHighIndex :: nat
  currentLowIndex :: nat
  breaks :: "StructureBreak list"

definition initialBreakState :: BreakState where
  "initialBreakState =
     \<lparr>lastHigh = None, lastLow = None, trend = BULLISH,
      currentHighIndex = 0, currentLowIndex = 0, breaks = []\<rparr>"

text \<open>
  The cursor loop
  \<open>while (k < swings.length && swings[k].index < i) { active = swings[k]; k++ }\<close>.
\<close>

function advance ::
  "SwingPoint list \<Rightarrow> nat \<Rightarrow> nat \<Rightarrow> SwingPoint option \<Rightarrow> nat \<times> SwingPoint option" where
  "advance swings i k active =
     (if k < length swings \<and> sp_index (swings ! k) < i
      then advance swings i (Suc k) (Some (swings ! k))
      else (k, active))"
  by pat_completeness auto
termination
  by (relation "measure (\<lambda>(swings, i, k, active). length swings - k)") auto

declare advance.simps [simp del]

definition updateActive ::
  "SwingPoint list \<Rightarrow> SwingPoint list \<Rightarrow> nat \<Rightarrow> BreakState \<Rightarrow> BreakState" where
  "updateActive highs lows i st =
     (let (hk, lh) = advance highs i (currentHighIndex st) (lastHigh st);
          (lk, ll) = advance lows i (currentLowIndex st) (lastLow st)
      in st\<lparr>lastHigh := lh, lastLow := ll, currentHighIndex := hk, currentLowIndex := lk\<rparr>)"

definition mkBreak ::
  "BreakType \<Rightarrow> TrendDirection \<Rightarrow> nat \<Rightarrow> rat \<Rightarrow> OHLCV \<Rightarrow> bool \<Rightarrow> StructureBreak" where
  "mkBreak ty dir i p c conf =
     \<lparr>sb_type = ty, sb_direction = dir, sb_index = i, sb_price = p,
      sb_timestamp = timestamp c, sb_isConfirmed = conf\<rparr>"

text \<open>
  The body of the candle loop after the cursor update: \<open>continue\<close> unless both active
  swings are set; otherwise the trend-dependent check of the high and (only in the
  \<open>else if\<close>) of the low, or the mirrored order in a bearish trend.
\<close>

definition classify :: "OHLCV \<Rightarrow> nat \<Rightarrow> BreakState \<Rightarrow> BreakState" where
  "classify c i st =
     (case (lastHigh st, lastLow st) of
        (Some lh, Some ll) \<Rightarrow>
          if trend st = BULLISH then
            if high c > sp_price lh then
              let isBOS = close c > sp_price lh in
              st\<lparr>breaks := breaks st @
                     [mkBreak (if isBOS then BOS else SWEEP) BULLISH i (sp_price lh) c isBOS],
                  lastHigh := (if isBOS then None else lastHigh st)\<rparr>
            else if low c < sp_price ll then
              let isCHOCH = close c < sp_price ll in
              st\<lparr>breaks := breaks st @
                     [mkBreak (if isCHOCH then CHOCH else SWEEP) BEARISH i (sp_price ll) c isCHOCH],
                  trend := (if isCHOCH then BEARISH else trend st),
                  lastLow := (if isCHOCH then None else lastLow st)\<rparr>
            else st
          else
            if low c < sp_price ll then
              let isBOS = close c < sp_price ll in
              st\<lparr>breaks := breaks st @
                     [mkBreak (if isBOS then BOS else SWEEP) BEARISH i (sp_price ll) c isBOS],
                  lastLow := (if isBOS then None else lastLow st)\<rparr>
            else if high c > sp_price lh then
              let isCHOCH = close c > sp_price lh in
              st\<lparr>breaks := breaks st @
                     [mkBreak (if isCHOCH then CHOCH else SWEEP) BULLISH i (sp_price lh) c isCHOCH],
                  trend := (if isCHOCH then BULLISH else trend st),
                  lastHigh := (if isCHOCH then None else lastHigh st)\<rparr>
            else st
      | _ \<Rightarrow> st)"

definition breakStep ::
  "OHLCV list \<Rightarrow> SwingPoint list \<Rightarrow> SwingPoint list \<Rightarrow> nat \<Rightarrow> BreakState \<Rightarrow> BreakState" where
  "breakStep candles highs lows i st = classify (candles ! i) i (updateActive highs lows i st)"

text \<open>The state of the loop when it reaches candle \<open>i\<close>, before the cursor update.\<close>

definition stateAt ::
  "OHLCV list \<Rightarrow> SwingPoint list \<Rightarrow> SwingPoint list \<Rightarrow> nat \<Rightarrow> BreakState" where
  "stateAt candles highs lows i = fold (breakStep candles highs lows) [0..<i] initialBreakState"

text \<open>The state at candle \<open>i\<close> after the cursor update: the active swings it compares with.\<close>

definition activeAt ::
  "OHLCV list \<Rightarrow> SwingPoint list \<Rightarrow> SwingPoint list \<Rightarrow> nat \<Rightarrow> BreakState" where
  "activeAt candles highs lows i = updateActive highs lows i (stateAt candles highs lows i)"

definition findStructureBreaks ::
  "OHLCV list \<Rightarrow> SwingPoint list \<Rightarrow> SwingPoint list \<Rightarrow> StructureBreak list" where
  "findStructureBreaks candles highs lows = breaks (stateAt candles highs lows (length candles))"

section \<open>SMCAnalyzer: order blocks, fair value gaps, dealing range\<close>

text \<open>
  \<open>findOrderBlocks\<close>, first loop: for each break, search backwards from
  \<open>bk.index - 1\<close> down to \<open>max(0, bk.index - 50)\<close> for the nearest candle of the opposite
  colour. The breaks come from \<open>findStructureBreaks\<close>, whose indices are below
  \<open>candles.length\<close>, so the reads are in range.
\<close>

definition isContrary :: "OHLCV list \<Rightarrow> StructureBreak \<Rightarrow> nat \<Rightarrow> bool" where
  "isContrary candles bk i =
     (if sb_direction bk = BULLISH then close (candles ! i) < opn (candles ! i)
      else close (candles ! i) > opn (candles ! i))"

definition mkOrderBlock :: "OHLCV list \<Rightarrow> TrendDirection \<Rightarrow> nat \<Rightarrow> OrderBlock" where
  "mkOrderBlock candles ty i =
     \<lparr>ob_type = ty, ob_top = high (candles ! i), ob_bottom = low (candles ! i),
      ob_index = i, ob_timestamp = timestamp (candles ! i),
      ob_mitigated = False, ob_mitigationIndex = None\<rparr>"

definition orderBlockFor :: "OHLCV list \<Rightarrow> StructureBreak \<Rightarrow> OrderBlock list" where
  "orderBlockFor candles bk =
     (case find (isContrary candles bk) (rev [sb_index bk - 50..<sb_index bk]) of
        None \<Rightarrow> []
      | Some i \<Rightarrow>
          [mkOrderBlock candles (if sb_direction bk = BULLISH then BULLISH else BEARISH) i])"

text \<open>Whether candle \<open>i\<close> re-enters the order block.\<close>

definition obTouched :: "OHLCV list \<Rightarrow> OrderBlock \<Rightarrow> nat \<Rightarrow> bool" where
  "obTouched candles ob i =
     (if ob_type ob = BULLISH then low (candles ! i) \<le> ob_top ob
      else high (candles ! i) \<ge> ob_bottom ob)"

text \<open>
  The mitigation loop of one order block over the indices \<open>ob.index + 5 .. length - 1\<close>:
  it leaves the loop once the flag is set, and sets flag and index at a touching candle.
\<close>

fun scanOrderBlock :: "OHLCV list \<Rightarrow> nat list \<Rightarrow> OrderBlock \<Rightarrow> OrderBlock" where
  "scanOrderBlock candles [] ob = ob"
| "scanOrderBlock candles (i # is) ob =
     (if ob_mitigated ob then ob
      else scanOrderBlock candles is
             (if obTouched candles ob i
              then ob\<lparr>ob_mitigated := True, ob_mitigationIndex := Some i\<rparr>
              else ob))"

definition mitigateOrderBlock :: "OHLCV list \<Rightarrow> OrderBlock \<Rightarrow> OrderBlock" where
  "mitigateOrderBlock candles ob =
     scanOrderBlock candles [ob_index ob + 5..<length candles] ob"

definition findOrderBlocks :: "OHLCV list \<Rightarrow> StructureBreak list \<Rightarrow> OrderBlock list" where
  "findOrderBlocks candles bks =
     map (mitigateOrderBlock candles) (concat (map (orderBlockFor candles) bks))"

text \<open>
  \<open>findFVGs\<close>: for each interior index the bullish and the bearish test are two separate
  \<open>if\<close>s; the mitigation loop starts at \<open>index + 2\<close> and stops at the first touch.
  The optional field \<open>midPrice\<close> is never assigned and is left out.
\<close>

definition mkFVG :: "OHLCV list \<Rightarrow> TrendDirection \<Rightarrow> rat \<Rightarrow> rat \<Rightarrow> nat \<Rightarrow> FairValueGap" where
  "mkFVG candles ty tp bt i =
     \<lparr>fvg_type = ty, fvg_top = tp, fvg_bottom = bt, fvg_index = i,
      fvg_timestamp = timestamp (candles ! i),
      fvg_mitigated = False, fvg_mitigationIndex = None\<rparr>"

definition fvgsAt :: "OHLCV list \<Rightarrow> nat \<Rightarrow> FairValueGap list" where
  "fvgsAt candles i =
     (let first = candles ! (i - 1); third = candles ! (i + 1) in
      (if low third > high first then [mkFVG candles BULLISH (low third) (high first) i] else []) @
      (if high third < low first then [mkFVG candles BEARISH (low first) (high third) i] else []))"

definition fvgTouched :: "OHLCV list \<Rightarrow> FairValueGap \<Rightarrow> nat \<Rightarrow> bool" where
  "fvgTouched candles fvg i =
     (if fvg_type fvg = BULLISH then low (candles ! i) \<le> fvg_top fvg
      else high (candles ! i) \<ge> fvg_bottom fvg)"

fun scanFVG :: "OHLCV list \<Rightarrow> nat list \<Rightarrow> FairValueGap \<Rightarrow> FairValueGap" where
  "scanFVG candles [] fvg = fvg"
| "scanFVG candles (i # is) fvg =
     (if fvgTouched candles fvg i
      then fvg\<lparr>fvg_mitigated := True, fvg_mitigationIndex := Some i\<rparr>
      else scanFVG candles is fvg)"

definition mitigateFVG :: "OHLCV list \<Rightarrow> FairValueGap \<Rightarrow> FairValueGap" where
  "mitigateFVG candles fvg = scanFVG candles [fvg_index fvg + 2..<length candles] fvg"

definition findFVGs :: "OHLCV list \<Rightarrow> FairValueGap list" where
  "findFVGs candles =
     map (mitigateFVG candles) (concat (map (fvgsAt candles) [1..<length candles - 1]))"

record Band =
  band_top :: rat
  band_bottom :: rat

record DealingRange =
  dr_high :: rat
  dr_low :: rat
  equilibrium :: rat
  premium :: Band
  discount :: Band
  indexHigh :: nat
  indexLow :: nat

definition findDealingRange :: "SwingPoint list \<Rightarrow> SwingPoint list \<Rightarrow> DealingRange option" where
  "findDealingRange highs lows =
     (if length highs = 0 \<or> length lows = 0 then None
      else
        let lastH = highs ! (length highs - 1);
            lastL = lows ! (length lows - 1);
            rangeHigh = sp_price lastH;
            rangeLow = sp_price lastL;
            eq = (rangeHigh + rangeLow) / 2
        in Some \<lparr>dr_high = rangeHigh, dr_low = rangeLow, equilibrium = eq,
                  premium = \<lparr>band_top = rangeHigh, band_bottom = eq\<rparr>,
                  discount = \<lparr>band_top = eq, band_bottom = rangeLow\<rparr>,
                  indexHigh = sp_index lastH, indexLow = sp_index lastL\<rparr>)"

section \<open>SMCAnalyzer.analyze\<close>

record SMCAnalysis =
  an_structure :: TrendDirection
  an_swingHighs :: "SwingPoint list"
  an_swingLows :: "SwingPoint list"
  an_breaks :: "StructureBreak list"
  an_orderBlocks :: "OrderBlock list"
  an_fvgs :: "FairValueGap list"
  an_dealingRange :: "DealingRange option"

text \<open>
  \<open>analyze\<close> calls the swing finders with their default windows \<open>left = right = 2\<close>; the
  structure is the direction of the last non-SWEEP break, RANGING when there is none.
\<close>

definition structureOf :: "StructureBreak list \<Rightarrow> TrendDirection" where
  "structureOf bks =
     (let confirmedBreaks = filter (\<lambda>b. sb_type b \<noteq> SWEEP) bks in
      if length confirmedBreaks > 0
      then sb_direction (confirmedBreaks ! (length confirmedBreaks - 1))
      else RANGING)"

definition analyze :: "OHLCV list \<Rightarrow> SMCAnalysis" where
  "analyze candles =
     (let swingHighs = findSwingHighs candles 2 2;
          swingLows = findSwingLows candles 2 2;
          bks = findStructureBreaks candles swingHighs swingLows;
          orderBlocks = findOrderBlocks candles bks;
          fvgs = findFVGs candles;
          dealingRange = findDealingRange swingHighs swingLows
      in \<lparr>an_structure = structureOf bks, an_swingHighs = swingHighs,
          an_swingLows = swingLows, an_breaks = bks, an_orderBlocks = orderBlocks,
          an_fvgs = fvgs, an_dealingRange = dealingRange\<rparr>)"

text \<open>
  Eight candles: candle 2 is a swing high (15) and a swing low (5); candle 6 sweeps the
  high without closing above it; candle 7 closes below the swing low. The ninth candle
  extends the array.
\<close>

definition reversalCandles :: "OHLCV list" where
  "reversalCandles =
     [candle 0 9 10 8 9, candle 1 9 11 7 10, candle 2 6 15 5 14,
      candle 3 12 12 6 11, candle 4 11 11 7 10, candle 5 10 10 8 9,
      candle 6 10 16 3 9, candle 7 9 9 4 (9/2)]"


text \<open>Sixty rising candles: open \<open>2i\<close>, close \<open>2i + 1\<close>, high = close, low = open.\<close>

definition risingCandles :: "nat \<Rightarrow> OHLCV list" where
  "risingCandles n =
     map (\<lambda>i. candle (int i) (2 * of_nat i) (2 * of_nat i + 1) (2 * of_nat i) (2 * of_nat i + 1))
       [0..<n]"

definition analyzerActiveAt :: "OHLCV list \<Rightarrow> nat \<Rightarrow> nat \<Rightarrow> nat \<Rightarrow> BreakState" where
  "analyzerActiveAt candles left right i =
     activeAt candles (findSwingHighs candles left right) (findSwingLows candles left right) i"

definition activeOk :: "SwingPoint list \<Rightarrow> SwingPoint list \<Rightarrow> nat \<Rightarrow> BreakState \<Rightarrow> bool" where
  "activeOk highs lows i st =
     ((\<forall>s. lastHigh st = Some s \<longrightarrow> s \<in> set highs \<and> sp_index s < i) \<and>
      (\<forall>s. lastLow st = Some s \<longrightarrow> s \<in> set lows \<and> sp_index s < i))"





section \<open>MultiTimeframeEngine.determineAlignedTrend\<close>

record HTFContext =
  htf_trend :: TrendDirection
  trendStrength :: rat
  liquidityTarget :: "rat option"
  liquidityType :: "SwingType option"
  swingHigh :: rat
  swingLow :: rat
  currentPrice :: rat
  htf_reasoning :: "string list"

record Alignment =
  alignedTrend :: TrendDirection
  isAligned :: bool
  confidence :: rat

text \<open>
  A missing context (\<open>null\<close>) is \<open>None\<close>. The fallback branch tests the daily context
  only: daily non-RANGING, four-hour RANGING, daily strength above 60.
\<close>

definition determineAlignedTrend :: "HTFContext option \<Rightarrow> HTFContext option \<Rightarrow> Alignment" where
  "determineAlignedTrend daily fourHour =
     (case (daily, fourHour) of
        (Some d, Some f) \<Rightarrow>
          let dailyTrend = htf_trend d; fourHourTrend = htf_trend f in
          if dailyTrend = fourHourTrend \<and> dailyTrend \<noteq> RANGING then
            let avgStrength = (trendStrength d + trendStrength f) / 2 in
            \<lparr>alignedTrend = dailyTrend, isAligned = True, confidence = avgStrength / 100\<rparr>
          else if dailyTrend \<noteq> RANGING \<and> fourHourTrend = RANGING \<and> trendStrength d > 60 then
            \<lparr>alignedTrend = dailyTrend, isAligned = False, confidence = trendStrength d / 150\<rparr>
          else \<lparr>alignedTrend = RANGING, isAligned = False, confidence = 0\<rparr>
      | _ \<Rightarrow> \<lparr>alignedTrend = RANGING, isAligned = False, confidence = 0\<rparr>)"

definition htfContext :: "TrendDirection \<Rightarrow> rat \<Rightarrow> HTFContext" where
  "htfContext t s =
     \<lparr>htf_trend = t, trendStrength = s, liquidityTarget = None, liquidityType = None,
      swingHigh = 0, swingLow = 0, currentPrice = 0, htf_reasoning = []\<rparr>"

section \<open>Backtest metrics: profit factor\<close>

text \<open>
  \<open>Number.prototype.toFixed(d)\<close> as the value of the decimal string it returns: the
  magnitude is rounded to \<open>d\<close> decimals, a tie going to the larger magnitude.
  \<open>parseFloat(x.toFixed(d))\<close> is then \<open>toFixed d x\<close>.
\<close>

definition toFixed :: "nat \<Rightarrow> rat \<Rightarrow> rat" where
  "toFixed d x =
     (if x < 0 then - (of_int \<lfloor>(- x) * 10 ^ d + 1 / 2\<rfloor> / 10 ^ d)
      else of_int \<lfloor>x * 10 ^ d + 1 / 2\<rfloor> / 10 ^ d)"

datatype TradeStatus = WIN | LOSS

datatype PositionType = LONG | SHORT

text \<open>
  The trade record of the candle-loop backtest engine; its display strings
  (\<open>duration\<close>, \<open>plPercent\<close>, \<open>riskReward\<close>) are left out.
\<close>

record BacktestTrade =
  bt_coin :: string
  bt_type :: PositionType
  bt_entryPrice :: rat
  bt_exitPrice :: rat
  bt_quantity :: rat
  bt_entryTime :: int
  bt_exitTime :: int
  bt_grossPL :: rat
  bt_netPL :: rat
  bt_status :: TradeStatus
  bt_reason :: string


text \<open>The strategy backtest engine (\<open>calculateResults\<close>): trades carry \<open>pnl\<close>.\<close>

record Trade =
  tr_pnl :: rat
  tr_pnlPercent :: rat


text \<open>\<open>MetricsCalculator.calculate\<close>: one pass accumulates the gross profit and loss.\<close>

record CompletedTrade =
  ct_entryPrice :: rat
  ct_exitPrice :: rat
  ct_size :: rat
  ct_grossProfit :: rat
  ct_netProfit :: rat
  ct_fee :: rat




text \<open>
  The quantities of the specification: gross profit is the sum of the positive net
  results, gross loss the sum of the others (a number \<open>\<le> 0\<close>).
\<close>

definition grossProfit :: "rat list \<Rightarrow> rat" where
  "grossProfit ps = sum_list (filter (\<lambda>p. p > 0) ps)"


definition closedTrade :: "rat \<Rightarrow> BacktestTrade" where
  "closedTrade p =
     \<lparr>bt_coin = ''BTCUSD'', bt_type = LONG, bt_entryPrice = 100, bt_exitPrice = 100 + p,
      bt_quantity = 1, bt_entryTime = 0, bt_exitTime = 1, bt_grossPL = p, bt_netPL = p,
      bt_status = (if p > 0 then WIN else LOSS), bt_reason = ''SELL''\<rparr>"

section \<open>PositionSizer\<close>

text \<open>
  The class \<open>PositionSizer\<close> of \<open>src/execution/PositionSizer.ts\<close>: its configuration, and
  its tracking state. The trade history, which stores \<open>new Date()\<close>, is left out.
\<close>

record PositionSizingConfig =
  accountBalance :: rat
  riskPercentage :: rat
  maxRiskPercentage :: rat
  minRiskPercentage :: rat
  maxDailyLoss :: rat
  maxMonthlyLoss :: rat
  maxConsecutiveLosses :: nat
  maxOpenPositions :: nat

record PositionSizer =
  config :: PositionSizingConfig
  currentBalance :: rat
  dailyLoss :: rat
  monthlyLoss :: rat
  consecutiveLosses :: nat
  openPositionsCount :: nat

definition defaultSizingConfig :: PositionSizingConfig where
  "defaultSizingConfig =
     \<lparr>accountBalance = 25000, riskPercentage = 1, maxRiskPercentage = 3,
      minRiskPercentage = 1 / 4, maxDailyLoss = 5, maxMonthlyLoss = 15,
      maxConsecutiveLosses = 3, maxOpenPositions = 3\<rparr>"

definition newPositionSizer :: "PositionSizingConfig \<Rightarrow> PositionSizer" where
  "newPositionSizer cfg =
     \<lparr>config = cfg, currentBalance = accountBalance cfg, dailyLoss = 0, monthlyLoss = 0,
      consecutiveLosses = 0, openPositionsCount = 0\<rparr>"

text \<open>
  A sizing method returns strings made by \<open>toFixed\<close>; the model keeps the values that
  \<open>parseFloat\<close> reads back: the quantity (four decimals) and the risk amount (two).
\<close>

record MethodSizing =
  ms_quantity :: rat
  ms_riskAmount :: rat

definition clampRisk :: "PositionSizingConfig \<Rightarrow> rat \<Rightarrow> rat" where
  "clampRisk cfg r = min (max r (minRiskPercentage cfg)) (maxRiskPercentage cfg)"

definition fixedPercentageRisk :: "PositionSizer \<Rightarrow> rat \<Rightarrow> rat \<Rightarrow> MethodSizing" where
  "fixedPercentageRisk s entryPrice stopLossPrice =
     (let riskAmount = currentBalance s * (riskPercentage (config s) / 100);
          riskPerPoint = \<bar>entryPrice - stopLossPrice\<bar>;
          quantity = riskAmount / riskPerPoint
      in \<lparr>ms_quantity = toFixed 4 quantity, ms_riskAmount = toFixed 2 riskAmount\<rparr>)"

text \<open>\<open>kellyCriterion\<close> returns \<open>null\<close> for a probability outside [0, 1] or a ratio \<open>\<le> 0\<close>.\<close>

definition kellyCriterion :: "PositionSizer \<Rightarrow> rat \<Rightarrow> rat \<Rightarrow> bool \<Rightarrow> rat option" where
  "kellyCriterion s winProbability riskRewardRatio useHalfKelly =
     (if winProbability < 0 \<or> winProbability > 1 then None
      else if riskRewardRatio \<le> 0 then None
      else
        let p = winProbability; q = 1 - winProbability; b = riskRewardRatio;
            kelly0 = ((b * p) - q) / b;
            kellyFraction = (if kelly0 < 0 then 0 else kelly0);
            fraction0 = (if useHalfKelly then kellyFraction * (1 / 2) else kellyFraction);
            finalFraction = min fraction0 (maxRiskPercentage (config s) / 100);
            riskAmount = currentBalance s * finalFraction
        in Some (toFixed 2 riskAmount))"

definition kellyCriterionWithPrice ::
  "PositionSizer \<Rightarrow> rat \<Rightarrow> rat \<Rightarrow> rat \<Rightarrow> rat \<Rightarrow> MethodSizing option" where
  "kellyCriterionWithPrice s entryPrice stopLossPrice takeProfitPrice winProbability =
     (let riskPerPoint = \<bar>entryPrice - stopLossPrice\<bar>;
          rewardPerPoint = \<bar>takeProfitPrice - entryPrice\<bar>;
          riskRewardRatio = rewardPerPoint / riskPerPoint
      in case kellyCriterion s winProbability riskRewardRatio True of
           None \<Rightarrow> None
         | Some riskAmount \<Rightarrow>
             Some \<lparr>ms_quantity = toFixed 4 (riskAmount / riskPerPoint),
                   ms_riskAmount = riskAmount\<rparr>)"

definition volatilityAdjustedSizing ::
  "PositionSizer \<Rightarrow> rat \<Rightarrow> rat \<Rightarrow> rat \<Rightarrow> rat \<Rightarrow> MethodSizing option" where
  "volatilityAdjustedSizing s entryPrice stopLossPrice atr averageAtr =
     (if atr = 0 \<or> averageAtr = 0 then None
      else
        let volatilityRatio = atr / averageAtr;
            adjustedRiskPercent = clampRisk (config s) (riskPercentage (config s) / volatilityRatio);
            riskAmount = currentBalance s * (adjustedRiskPercent / 100);
            riskPerPoint = \<bar>entryPrice - stopLossPrice\<bar>;
            quantity = riskAmount / riskPerPoint
        in Some \<lparr>ms_quantity = toFixed 4 quantity, ms_riskAmount = toFixed 2 riskAmount\<rparr>)"

definition gradeMultiplier :: "string \<Rightarrow> rat" where
  "gradeMultiplier g =
     (if g = ''A+'' then 3 / 2 else if g = ''A'' then 5 / 4 else if g = ''B+'' then 1
      else if g = ''B'' then 3 / 4 else if g = ''C'' then 1 / 2 else if g = ''D'' then 1 / 4
      else 3 / 4)"

definition confidenceGradedSizing ::
  "PositionSizer \<Rightarrow> rat \<Rightarrow> rat \<Rightarrow> string \<Rightarrow> rat \<Rightarrow> MethodSizing" where
  "confidenceGradedSizing s entryPrice stopLossPrice tradeGrade confidenceScore =
     (let multiplier = gradeMultiplier tradeGrade;
          effectiveMultiplier = multiplier * (1 / 2 + (confidenceScore * (1 / 2)));
          adjustedRiskPercent = clampRisk (config s) (riskPercentage (config s) * effectiveMultiplier);
          riskAmount = currentBalance s * (adjustedRiskPercent / 100);
          riskPerPoint = \<bar>entryPrice - stopLossPrice\<bar>;
          quantity = riskAmount / riskPerPoint
      in \<lparr>ms_quantity = toFixed 4 quantity, ms_riskAmount = toFixed 2 riskAmount\<rparr>)"

definition momentumBasedSizing :: "PositionSizer \<Rightarrow> rat \<Rightarrow> rat \<Rightarrow> rat \<Rightarrow> MethodSizing" where
  "momentumBasedSizing s entryPrice stopLossPrice momentumScore =
     (let multiplier =
            (if momentumScore \<ge> 9 / 10 then 3 / 2
             else if momentumScore \<ge> 7 / 10 then 5 / 4
             else if momentumScore \<ge> 1 / 2 then 1
             else if momentumScore \<ge> 3 / 10 then 3 / 5
             else 3 / 10);
          adjustedRiskPercent = clampRisk (config s) (riskPercentage (config s) * multiplier);
          riskAmount = currentBalance s * (adjustedRiskPercent / 100);
          riskPerPoint = \<bar>entryPrice - stopLossPrice\<bar>;
          quantity = riskAmount / riskPerPoint
      in \<lparr>ms_quantity = toFixed 4 quantity, ms_riskAmount = toFixed 2 riskAmount\<rparr>)"

text \<open>The pre-trade gate: five named checks, all of which must hold.\<close>

record RiskCheck =
  canOpen :: bool
  belowMaxDailyLoss :: bool
  belowMaxMonthlyLoss :: bool
  belowMaxOpenPositions :: bool
  notTooManyConsecutiveLosses :: bool
  sufficientCapital :: bool
  failureReasons :: "string list"

definition canOpenPosition :: "PositionSizer \<Rightarrow> rat \<Rightarrow> RiskCheck" where
  "canOpenPosition s riskAmount =
     (let c1 = (dailyLoss s + riskAmount
                  \<le> accountBalance (config s) * (maxDailyLoss (config s) / 100));
          c2 = (monthlyLoss s + riskAmount
                  \<le> accountBalance (config s) * (maxMonthlyLoss (config s) / 100));
          c3 = (openPositionsCount s < maxOpenPositions (config s));
          c4 = (consecutiveLosses s < maxConsecutiveLosses (config s));
          c5 = (riskAmount \<le> currentBalance s * (5 / 100))
      in \<lparr>canOpen = (c1 \<and> c2 \<and> c3 \<and> c4 \<and> c5),
          belowMaxDailyLoss = c1, belowMaxMonthlyLoss = c2, belowMaxOpenPositions = c3,
          notTooManyConsecutiveLosses = c4, sufficientCapital = c5,
          failureReasons =
            (if c1 then [] else [''belowMaxDailyLoss'']) @
            (if c2 then [] else [''belowMaxMonthlyLoss'']) @
            (if c3 then [] else [''belowMaxOpenPositions'']) @
            (if c4 then [] else [''notTooManyConsecutiveLosses'']) @
            (if c5 then [] else [''sufficientCapital''])\<rparr>)"

definition recordTrade :: "PositionSizer \<Rightarrow> rat \<Rightarrow> PositionSizer" where
  "recordTrade s profitLoss =
     (let s1 = s\<lparr>currentBalance := currentBalance s + profitLoss\<rparr>;
          s2 = (if profitLoss < 0
                then s1\<lparr>dailyLoss := dailyLoss s1 + \<bar>profitLoss\<bar>,
                         monthlyLoss := monthlyLoss s1 + \<bar>profitLoss\<bar>,
                         consecutiveLosses := consecutiveLosses s1 + 1\<rparr>
                else s1\<lparr>consecutiveLosses := 0\<rparr>)
      in s2\<lparr>openPositionsCount := openPositionsCount s2 - 1\<rparr>)"

text \<open>
  The parameter object of \<open>intelligentSizing\<close>; an absent property is \<open>None\<close> and takes
  the default of the destructuring pattern.
\<close>

record SizingParams =
  p_entryPrice :: rat
  p_stopLossPrice :: rat
  p_takeProfitPrice :: "rat option"
  p_atr :: "rat option"
  p_averageAtr :: "rat option"
  p_winProbability :: "rat option"
  p_tradeGrade :: "string option"
  p_confidenceScore :: "rat option"
  p_momentumScore :: "rat option"

record Recommendation =
  rec_quantity :: rat
  rec_riskAmount :: rat
  rec_entryPrice :: rat
  rec_stopLoss :: rat

record IntelligentSizing =
  recommendation :: Recommendation
  riskCheck :: RiskCheck
  cmp_fixed :: rat
  cmp_kelly :: "rat option"
  cmp_volatility :: "rat option"
  cmp_confidence :: rat
  cmp_momentum :: rat

datatype SizingError = NonFinite

text \<open>
  \<open>intelligentSizing\<close>: the five quantities blended with the weights 0.2, 0.25, 0.2, 0.2
  and 0.15; the gate is evaluated on the risk amount of the confidence method and
  returned beside the recommendation. No step limits the blended quantity. With
  \<open>entryPrice = stopLossPrice\<close> the source divides by zero and its quantities are
  \<open>Infinity\<close> or \<open>NaN\<close>; the model reports \<open>NonFinite\<close> there.
\<close>

definition intelligentSizing :: "PositionSizer \<Rightarrow> SizingParams \<Rightarrow> SizingError + IntelligentSizing" where
  "intelligentSizing s ps =
     (let entryPrice = p_entryPrice ps; stopLossPrice = p_stopLossPrice ps;
          winProbability = (case p_winProbability ps of None \<Rightarrow> 55 / 100 | Some w \<Rightarrow> w);
          tradeGrade = (case p_tradeGrade ps of None \<Rightarrow> ''B'' | Some g \<Rightarrow> g);
          confidenceScore = (case p_confidenceScore ps of None \<Rightarrow> 1 / 2 | Some c \<Rightarrow> c);
          momentumScore = (case p_momentumScore ps of None \<Rightarrow> 1 / 2 | Some m \<Rightarrow> m)
      in if entryPrice = stopLossPrice then Inl NonFinite
         else
           let fixed = fixedPercentageRisk s entryPrice stopLossPrice;
               kelly = (case p_takeProfitPrice ps of
                          None \<Rightarrow> None
                        | Some tp \<Rightarrow>
                            if tp = 0 then None
                            else kellyCriterionWithPrice s entryPrice stopLossPrice tp winProbability);
               volatility = (case (p_atr ps, p_averageAtr ps) of
                               (Some a, Some av) \<Rightarrow>
                                 if a = 0 \<or> av = 0 then None
                                 else volatilityAdjustedSizing s entryPrice stopLossPrice a av
                             | _ \<Rightarrow> None);
               confidence = confidenceGradedSizing s entryPrice stopLossPrice tradeGrade confidenceScore;
               momentum = momentumBasedSizing s entryPrice stopLossPrice momentumScore;
               q0 = ms_quantity fixed;
               q1 = (case kelly of None \<Rightarrow> ms_quantity fixed | Some k \<Rightarrow> ms_quantity k);
               q2 = (case volatility of None \<Rightarrow> ms_quantity fixed | Some v \<Rightarrow> ms_quantity v);
               q3 = ms_quantity confidence;
               q4 = ms_quantity momentum;
               weightedQty = q0 * (2 / 10) + q1 * (25 / 100) + q2 * (2 / 10) + q3 * (2 / 10)
                               + q4 * (15 / 100);
               riskAmount = ms_riskAmount confidence
           in Inr \<lparr>recommendation =
                      \<lparr>rec_quantity = toFixed 4 weightedQty, rec_riskAmount = toFixed 2 riskAmount,
                       rec_entryPrice = entryPrice, rec_stopLoss = stopLossPrice\<rparr>,
                    riskCheck = canOpenPosition s riskAmount,
                    cmp_fixed = ms_quantity fixed,
                    cmp_kelly = map_option ms_quantity kelly,
                    cmp_volatility = map_option ms_quantity volatility,
                    cmp_confidence = ms_quantity confidence,
                    cmp_momentum = ms_quantity momentum\<rparr>)"

definition sizingParams :: "rat \<Rightarrow> rat \<Rightarrow> SizingParams" where
  "sizingParams entryPrice stopLossPrice =
     \<lparr>p_entryPrice = entryPrice, p_stopLossPrice = stopLossPrice, p_takeProfitPrice = None,
      p_atr = None, p_averageAtr = None, p_winProbability = None, p_tradeGrade = None,
      p_confidenceScore = None, p_momentumScore = None\<rparr>"

section \<open>AccountManager.calculatePositionSize\<close>

text \<open>
  The sizing of the strategy backtest engine: the risk-based share count is replaced by
  \<open>maxPositionValue / entryPrice\<close> when its value exceeds \<open>capital * leverage\<close>, then
  floored to two decimals.
\<close>

definition calculatePositionSize :: "rat \<Rightarrow> rat \<Rightarrow> rat \<Rightarrow> rat \<Rightarrow> rat \<Rightarrow> rat \<times> rat" where
  "calculatePositionSize capital riskPerTrade leverage entryPrice stopLoss =
     (let riskPerShare = \<bar>entryPrice - stopLoss\<bar> in
      if riskPerShare = 0 then (0, 0)
      else
        let riskAmount = capital * riskPerTrade;
            shares0 = riskAmount / riskPerShare;
            maxPositionValue = capital * leverage;
            requestedPositionValue = shares0 * entryPrice;
            shares = (if requestedPositionValue > maxPositionValue
                      then maxPositionValue / entryPrice else shares0)
        in (of_int \<lfloor>shares * 100\<rfloor> / 100, (of_int \<lfloor>shares * 100\<rfloor> / 100) * riskPerShare))"

section \<open>Backtest engines: opening a position\<close>

text \<open>
  The signal actions: the SMC engine uses \<open>'BUY' | 'SELL' | 'NO_TRADE'\<close>, the strategy
  classes \<open>'BUY' | 'SELL' | 'WAIT'\<close>.
\<close>

datatype TradeAction = BUY | SELL | NO_TRADE | WAIT

record TradeSignal =
  sig_action :: TradeAction
  sig_confidence :: rat
  sig_reasoning :: "string list"
  sig_price :: rat
  sig_timestamp :: int
  sig_stopLoss :: "rat option"
  sig_takeProfit1 :: "rat option"
  sig_takeProfit2 :: "rat option"
  sig_timeframe :: "string option"

record BacktestPosition =
  pos_coin :: string
  pos_type :: PositionType
  pos_entryPrice :: rat
  pos_entryTime :: int
  pos_quantity :: rat
  pos_stopLoss :: rat
  pos_takeProfit :: rat
  pos_riskAmount :: rat
  pos_highWaterMark :: rat
  pos_isBreakeven :: bool

record EquityPoint =
  ep_time :: int
  ep_equity :: rat
  ep_price :: rat

text \<open>The fields of the candle-loop \<open>BacktestEngine\<close>; \<open>positions\<close> is a \<open>Map\<close> keyed by coin.\<close>

record BacktestEngine =
  be_initialCapital :: rat
  be_riskPerTrade :: rat
  be_commission :: rat
  be_slippage :: rat
  be_equity :: rat
  be_positions :: "string \<rightharpoonup> BacktestPosition"
  be_trades :: "BacktestTrade list"
  be_equityHistory :: "EquityPoint list"
  be_positionSizer :: PositionSizer

text \<open>\<open>a || b\<close> on an optional number: \<open>b\<close> when \<open>a\<close> is absent or zero.\<close>

definition orElse :: "rat option \<Rightarrow> rat \<Rightarrow> rat" where
  "orElse a b = (case a of None \<Rightarrow> b | Some x \<Rightarrow> if x = 0 then b else x)"

text \<open>
  The entry logic of \<open>runBacktest\<close> for one candle and the signal evaluated on it. A
  position is opened when none is held for the coin, the signal is BUY or SELL, the
  recommended quantity is positive and the equity covers the entry fee. The
  \<open>riskCheck\<close> returned by \<open>intelligentSizing\<close> is not read. The branch taken while a
  position is held (exit on a reversed signal) is not part of this function.
\<close>

definition enterOnSignal ::
  "string \<Rightarrow> OHLCV \<Rightarrow> TradeSignal \<Rightarrow> BacktestEngine \<Rightarrow> SizingError + BacktestEngine" where
  "enterOnSignal coin currentCandle signal st =
     (case be_positions st coin of
        Some position \<Rightarrow> Inr st
      | None \<Rightarrow>
          if sig_action signal = BUY \<or> sig_action signal = SELL then
            let stopLossPrice =
                  orElse (sig_stopLoss signal)
                    (if sig_action signal = BUY then sig_price signal * (98 / 100)
                     else sig_price signal * (102 / 100))
            in case intelligentSizing (be_positionSizer st)
                      (sizingParams (sig_price signal) stopLossPrice) of
                 Inl e \<Rightarrow> Inl e
               | Inr sizing \<Rightarrow>
                   if rec_quantity (recommendation sizing) \<le> 0 then Inr st
                   else
                     let tradeSize = rec_quantity (recommendation sizing);
                         side = (if sig_action signal = BUY then LONG else SHORT);
                         fee = tradeSize * sig_price signal * be_commission st
                     in if be_equity st < fee then Inr st
                        else Inr (st\<lparr>be_equity := be_equity st - fee,
                                     be_positions := (be_positions st)(coin \<mapsto>
                                       \<lparr>pos_coin = coin, pos_type = side,
                                        pos_entryPrice = sig_price signal *
                                          (if side = LONG then 1 + be_slippage st
                                           else 1 - be_slippage st),
                                        pos_entryTime = timestamp currentCandle,
                                        pos_quantity = tradeSize,
                                        pos_stopLoss =
                                          (if rec_stopLoss (recommendation sizing) \<noteq> 0
                                           then rec_stopLoss (recommendation sizing)
                                           else orElse (sig_stopLoss signal) (sig_price signal)),
                                        pos_takeProfit = orElse (sig_takeProfit1 signal) 0,
                                        pos_riskAmount = rec_riskAmount (recommendation sizing),
                                        pos_highWaterMark = sig_price signal,
                                        pos_isBreakeven = False\<rparr>)\<rparr>)
          else Inr st)"

text \<open>
  The engine of \<open>run.ts\<close> (capital 10000, risk 2 percent, commission 0.1 percent,
  slippage 0.05 percent) after three losing trades of 200 each have been recorded in
  its sizer, with no position open; and a BUY signal at 100 with stop 98 and target 106.
\<close>

definition afterThreeLosses :: BacktestEngine where
  "afterThreeLosses =
     \<lparr>be_initialCapital = 10000, be_riskPerTrade = 2, be_commission = 1 / 1000,
      be_slippage = 5 / 10000, be_equity = 9400, be_positions = Map.empty,
      be_trades = [closedTrade (- 200), closedTrade (- 200), closedTrade (- 200)],
      be_equityHistory = [],
      be_positionSizer =
        recordTrade (recordTrade (recordTrade
          (newPositionSizer (defaultSizingConfig\<lparr>accountBalance := 10000, riskPercentage := 2\<rparr>))
          (- 200)) (- 200)) (- 200)\<rparr>"

definition buySignal :: TradeSignal where
  "buySignal =
     \<lparr>sig_action = BUY, sig_confidence = 6 / 10, sig_reasoning = [], sig_price = 100,
      sig_timestamp = 0, sig_stopLoss = Some 98, sig_takeProfit1 = Some 106,
      sig_takeProfit2 = None, sig_timeframe = None\<rparr>"

text \<open>
  The strategy backtest engine (\<open>run\<close> / \<open>openPosition\<close>): one position slot and the
  account state. The position's \<open>id\<close>, built from \<open>Date.now()\<close> and \<open>Math.random()\<close>, is
  left out.
\<close>

record StrategySignal =
  ss_action :: TradeAction
  ss_price :: rat
  ss_stopLoss :: rat
  ss_takeProfit :: rat
  ss_confidence :: rat
  ss_setup :: "string option"

record Position =
  ps_entryTime :: int
  ps_entryPrice :: rat
  ps_stopLoss :: rat
  ps_takeProfit :: rat
  ps_shares :: rat
  ps_direction :: PositionType
  ps_strategy :: string
  ps_setup :: string
  ps_riskAmount :: rat
  ps_riskPercent :: rat
  ps_initialCapital :: rat

record AccountState =
  as_initialCapital :: rat
  as_capital :: rat
  as_equity :: rat
  as_todayPNL :: rat
  as_weeklyPNL :: rat
  as_tradesToday :: nat
  as_winningStreak :: nat
  as_losingStreak :: nat
  as_maxEquity :: rat
  as_maxDrawdown :: rat

record StrategyBacktest =
  sbt_commission :: rat
  sbt_slippage :: rat
  sbt_riskPerTrade :: rat
  sbt_leverage :: rat
  sbt_account :: AccountState
  sbt_currentPosition :: "Position option"

definition updateOnTradeStart :: "AccountState \<Rightarrow> AccountState" where
  "updateOnTradeStart a = a\<lparr>as_tradesToday := as_tradesToday a + 1\<rparr>"

definition updateOnTradeEnd :: "rat \<Rightarrow> AccountState \<Rightarrow> AccountState" where
  "updateOnTradeEnd pnl a =
     (let a1 = a\<lparr>as_capital := as_capital a + pnl, as_todayPNL := as_todayPNL a + pnl,
                 as_weeklyPNL := as_weeklyPNL a + pnl\<rparr>;
          a2 = (if pnl > 0
                then a1\<lparr>as_winningStreak := as_winningStreak a1 + 1, as_losingStreak := 0\<rparr>
                else a1\<lparr>as_losingStreak := as_losingStreak a1 + 1, as_winningStreak := 0\<rparr>);
          a3 = (if as_capital a2 > as_maxEquity a2 then a2\<lparr>as_maxEquity := as_capital a2\<rparr> else a2);
          currentDrawdown = as_maxEquity a3 - as_capital a3
      in if currentDrawdown > as_maxDrawdown a3 then a3\<lparr>as_maxDrawdown := currentDrawdown\<rparr>
         else a3)"

text \<open>
  \<open>openPosition\<close> returns early only when the share count is not positive; it assigns
  \<open>currentPosition\<close> whether or not a position is held. \<open>entryStep\<close> is step 2 of the loop
  body of \<open>run\<close>: every signal other than WAIT goes to \<open>openPosition\<close>.
\<close>

definition openPosition ::
  "StrategySignal \<Rightarrow> OHLCV \<Rightarrow> string \<Rightarrow> StrategyBacktest \<Rightarrow> StrategyBacktest" where
  "openPosition signal c strategyName st =
     (let sizing = calculatePositionSize (as_capital (sbt_account st)) (sbt_riskPerTrade st)
                     (sbt_leverage st) (ss_price signal) (ss_stopLoss signal)
      in if fst sizing \<le> 0 then st
         else
           let pos = \<lparr>ps_entryTime = timestamp c, ps_entryPrice = ss_price signal,
                      ps_stopLoss = ss_stopLoss signal, ps_takeProfit = ss_takeProfit signal,
                      ps_shares = fst sizing,
                      ps_direction = (if ss_action signal = BUY then LONG else SHORT),
                      ps_strategy = strategyName,
                      ps_setup = (case ss_setup signal of None \<Rightarrow> [] | Some x \<Rightarrow> x),
                      ps_riskAmount = snd sizing,
                      ps_riskPercent = (snd sizing / as_capital (sbt_account st)) * 100,
                      ps_initialCapital = as_capital (sbt_account st)\<rparr>;
               entryCost = ps_shares pos * ps_entryPrice pos * sbt_commission st
           in st\<lparr>sbt_currentPosition := Some pos,
                 sbt_account :=
                   updateOnTradeEnd (- entryCost) (updateOnTradeStart (sbt_account st))\<rparr>)"

datatype ExitType = STOP_LOSS | TAKE_PROFIT

definition checkExit :: "Position \<Rightarrow> OHLCV \<Rightarrow> (rat \<times> ExitType) option" where
  "checkExit position c =
     (if ps_direction position = LONG then
        if low c \<le> ps_stopLoss position then Some (ps_stopLoss position, STOP_LOSS)
        else if high c \<ge> ps_takeProfit position then Some (ps_takeProfit position, TAKE_PROFIT)
        else None
      else
        if high c \<ge> ps_stopLoss position then Some (ps_stopLoss position, STOP_LOSS)
        else if low c \<le> ps_takeProfit position then Some (ps_takeProfit position, TAKE_PROFIT)
        else None)"

definition entryStep ::
  "StrategySignal option \<Rightarrow> OHLCV \<Rightarrow> string \<Rightarrow> StrategyBacktest \<Rightarrow> StrategyBacktest" where
  "entryStep signal c strategyName st =
     (case signal of
        None \<Rightarrow> st
      | Some sg \<Rightarrow> if ss_action sg \<noteq> WAIT then openPosition sg c strategyName st else st)"

definition initialAccount :: "rat \<Rightarrow> AccountState" where
  "initialAccount c =
     \<lparr>as_initialCapital = c, as_capital = c, as_equity = c, as_todayPNL = 0, as_weeklyPNL = 0,
      as_tradesToday = 0, as_winningStreak = 0, as_losingStreak = 0, as_maxEquity = c,
      as_maxDrawdown = 0\<rparr>"

definition strategyBuy :: "rat \<Rightarrow> StrategySignal" where
  "strategyBuy p =
     \<lparr>ss_action = BUY, ss_price = p, ss_stopLoss = p - 2, ss_takeProfit = p + 6,
      ss_confidence = 7 / 10, ss_setup = None\<rparr>"

definition freshBacktest :: StrategyBacktest where
  "freshBacktest =
     \<lparr>sbt_commission = 1 / 1000, sbt_slippage = 5 / 10000, sbt_riskPerTrade = 2 / 100,
      sbt_leverage = 10, sbt_account = initialAccount 10000, sbt_currentPosition = None\<rparr>"

section \<open>Signal evaluation\<close>

datatype RuntimeError = TypeError

text \<open>
  \<open>OrderBlockAnalyzer\<close>: a candle is a bullish (bearish) order block when the highest
  high (lowest low) of the next three candles lies at least 1.5 percent above its high
  (below its low); it is mitigated when a candle from \<open>index + 4\<close> on closes beyond it.
  Where the source divides by a zero high or low the move is \<open>Infinity\<close> (compared
  \<open>>= 1.5\<close>: true exactly for a positive numerator) or \<open>-Infinity\<close>/\<open>NaN\<close> (false); the
  strength is then not a finite number, \<open>None\<close> in the model.
\<close>

record ZoneOrderBlock =
  zob_price :: rat
  zob_high :: rat
  zob_low :: rat
  zob_type :: TrendDirection
  zob_index :: nat
  zob_candle :: OHLCV
  zob_strength :: "rat option"
  zob_isMitigated :: bool

definition maxOf :: "rat list \<Rightarrow> rat" where
  "maxOf xs = fold max (tl xs) (hd xs)"

definition minOf :: "rat list \<Rightarrow> rat" where
  "minOf xs = fold min (tl xs) (hd xs)"

definition checkIfMitigated ::
  "OHLCV list \<Rightarrow> nat \<Rightarrow> rat \<Rightarrow> rat \<Rightarrow> TrendDirection \<Rightarrow> bool" where
  "checkIfMitigated candles obIndex obLow obHigh obType =
     list_ex (\<lambda>i. if obType = BULLISH then close (candles ! i) < obLow
                   else close (candles ! i) > obHigh)
       [obIndex + 4..<length candles]"

definition checkBullishOrderBlock :: "OHLCV list \<Rightarrow> nat \<Rightarrow> ZoneOrderBlock option" where
  "checkBullishOrderBlock candles index =
     (if index + 3 \<ge> length candles then None
      else
        let currentCandle = candles ! index;
            nextCandles = take 3 (drop (index + 1) candles);
            highestHigh = maxOf (map high nextCandles);
            movePercent = ((highestHigh - high currentCandle) / high currentCandle) * 100;
            strongMove = (if high currentCandle = 0 then highestHigh - high currentCandle > 0
                          else movePercent \<ge> 3 / 2)
        in if strongMove
           then Some \<lparr>zob_price = (high currentCandle + low currentCandle) / 2,
                       zob_high = high currentCandle, zob_low = low currentCandle,
                       zob_type = BULLISH, zob_index = index, zob_candle = currentCandle,
                       zob_strength = (if high currentCandle = 0 then None else Some movePercent),
                       zob_isMitigated =
                         checkIfMitigated candles index (low currentCandle)
                           (high currentCandle) BULLISH\<rparr>
           else None)"

definition checkBearishOrderBlock :: "OHLCV list \<Rightarrow> nat \<Rightarrow> ZoneOrderBlock option" where
  "checkBearishOrderBlock candles index =
     (if index + 3 \<ge> length candles then None
      else
        let currentCandle = candles ! index;
            nextCandles = take 3 (drop (index + 1) candles);
            lowestLow = minOf (map low nextCandles);
            movePercent = ((low currentCandle - lowestLow) / low currentCandle) * 100;
            strongMove = (if low currentCandle = 0 then low currentCandle - lowestLow > 0
                          else movePercent \<ge> 3 / 2)
        in if strongMove
           then Some \<lparr>zob_price = (high currentCandle + low currentCandle) / 2,
                       zob_high = high currentCandle, zob_low = low currentCandle,
                       zob_type = BEARISH, zob_index = index, zob_candle = currentCandle,
                       zob_strength = (if low currentCandle = 0 then None else Some movePercent),
                       zob_isMitigated =
                         checkIfMitigated candles index (low currentCandle)
                           (high currentCandle) BEARISH\<rparr>
           else None)"

text \<open>
  \<open>detectOrderBlocks\<close>: fewer than ten candles give the empty list; otherwise the
  candidates from \<open>max(0, length - lookback)\<close> to \<open>length - 4\<close>, unmitigated ones only.
\<close>

definition detectOrderBlocks :: "OHLCV list \<Rightarrow> nat \<Rightarrow> ZoneOrderBlock list" where
  "detectOrderBlocks candles lookback =
     (if length candles < 10 then []
      else
        let startIndex = length candles - lookback;
            orderBlocks =
              concat (map (\<lambda>i. (case checkBullishOrderBlock candles i of
                                    None \<Rightarrow> [] | Some ob \<Rightarrow> [ob]) @
                                 (case checkBearishOrderBlock candles i of
                                    None \<Rightarrow> [] | Some ob \<Rightarrow> [ob]))
                        [startIndex..<length candles - 3])
        in filter (\<lambda>ob. \<not> zob_isMitigated ob) orderBlocks)"

text \<open>
  \<open>isPriceNearOrderBlock\<close>: with a zero midpoint the source's distance is \<open>Infinity\<close> or
  \<open>NaN\<close> and the comparison is false.
\<close>

definition isPriceNearOrderBlock :: "rat \<Rightarrow> ZoneOrderBlock \<Rightarrow> rat \<Rightarrow> bool" where
  "isPriceNearOrderBlock price ob tolerance =
     (let obMid = (zob_high ob + zob_low ob) / 2;
          distance = \<bar>price - obMid\<bar> / obMid
      in obMid \<noteq> 0 \<and> distance \<le> tolerance)"

record StrategyConfig =
  requireHTFAlignment :: bool
  allowSingleHTFTrend :: bool
  strictFibZone :: bool
  allowEquilibriumZone :: bool
  requireCLSCandle :: bool
  clsWickMinPercent :: rat
  requireCIOD :: bool
  ciodLookback :: nat
  requireOrderBlockRetest :: bool
  orderBlockProximity :: rat
  minRiskReward :: rat
  enableTieredSignals :: bool

definition OPTIMIZED_CONFIG :: StrategyConfig where
  "OPTIMIZED_CONFIG =
     \<lparr>requireHTFAlignment = False, allowSingleHTFTrend = True, strictFibZone = False,
      allowEquilibriumZone = True, requireCLSCandle = False, clsWickMinPercent = 2 / 10,
      requireCIOD = False, ciodLookback = 10, requireOrderBlockRetest = True,
      orderBlockProximity = 2, minRiskReward = 3 / 2, enableTieredSignals = True\<rparr>"

text \<open>The decimal string of \<open>toFixed(2)\<close>, for the reasoning note.\<close>

definition digitChar :: "nat \<Rightarrow> char" where
  "digitChar n = ''0123456789'' ! n"

function showNat :: "nat \<Rightarrow> string" where
  "showNat n = (if n < 10 then [digitChar n] else showNat (n div 10) @ [digitChar (n mod 10)])"
  by pat_completeness auto
termination
  by (relation "measure (\<lambda>n. n)") auto

declare showNat.simps [simp del]

definition showFixed2 :: "rat \<Rightarrow> string" where
  "showFixed2 x =
     (let n = nat \<lfloor>\<bar>x\<bar> * 100 + 1 / 2\<rfloor> in
      (if x < 0 then ''-'' else []) @ showNat (n div 100) @ ''.'' @
      [digitChar ((n div 10) mod 10), digitChar (n mod 10)])"

definition actionName :: "TradeAction \<Rightarrow> string" where
  "actionName a =
     (case a of BUY \<Rightarrow> ''BUY'' | SELL \<Rightarrow> ''SELL'' | NO_TRADE \<Rightarrow> ''NO_TRADE'' | WAIT \<Rightarrow> ''WAIT'')"

text \<open>
  \<open>StrategyEngine.evaluate\<close> (the synchronous SMC evaluator). Its first statement reads
  \<open>candles[candles.length - 1].close\<close>: on an empty array the element is \<open>undefined\<close> and
  the property read throws a \<open>TypeError\<close>, before the length test and outside the
  \<open>try\<close> block. \<open>evaluateRules\<close> is the body of the \<open>try\<close> block, entered with 100 candles
  or more; none of its steps throws, so the \<open>catch\<close> branch is never taken.
\<close>

definition noTradeSignal :: "OHLCV list \<Rightarrow> TradeSignal" where
  "noTradeSignal candles =
     \<lparr>sig_action = NO_TRADE, sig_confidence = 0, sig_reasoning = [],
      sig_price = close (candles ! (length candles - 1)),
      sig_timestamp = timestamp (candles ! (length candles - 1)),
      sig_stopLoss = None, sig_takeProfit1 = None, sig_takeProfit2 = None,
      sig_timeframe = None\<rparr>"

definition evaluateRules :: "StrategyConfig \<Rightarrow> OHLCV list \<Rightarrow> TradeSignal \<Rightarrow> TradeSignal" where
  "evaluateRules cfg candles signal =
     (let currentPrice = sig_price signal;
          smc = analyze candles;
          smcTrend = an_structure smc
      in if smcTrend = RANGING then signal
         else
           let obs = detectOrderBlocks candles 50;
               validOBs = filter (\<lambda>ob. zob_type ob = smcTrend \<and> \<not> zob_isMitigated ob) obs
           in if length validOBs = 0 then signal
              else
                let ob = validOBs ! (length validOBs - 1) in
                if \<not> isPriceNearOrderBlock currentPrice ob (1 / 100) then signal
                else
                  let stopLoss0 = (if smcTrend = BULLISH then zob_low ob else zob_high ob);
                      target =
                        (if smcTrend = BULLISH
                         then orElse (map_option dr_high (an_dealingRange smc))
                                (currentPrice * (102 / 100))
                         else orElse (map_option dr_low (an_dealingRange smc))
                                (currentPrice * (98 / 100)));
                      risk0 = (if \<bar>currentPrice - stopLoss0\<bar> = 0 then 1 / 10000
                               else \<bar>currentPrice - stopLoss0\<bar>);
                      minRisk = currentPrice * ((2 / 10) / 100);
                      stopLoss = (if risk0 < minRisk
                                  then (if smcTrend = BULLISH then currentPrice - minRisk
                                        else currentPrice + minRisk)
                                  else stopLoss0);
                      risk = (if risk0 < minRisk then minRisk else risk0);
                      reward = \<bar>target - currentPrice\<bar>;
                      rr0 = reward / risk;
                      rr = (if rr0 > 10 then 10 else rr0)
                  in if rr < minRiskReward cfg then signal
                     else
                       let action = (if smcTrend = BULLISH then BUY else SELL) in
                       signal\<lparr>sig_action := action, sig_stopLoss := Some stopLoss,
                              sig_takeProfit1 := Some target, sig_confidence := 6 / 10,
                              sig_reasoning := sig_reasoning signal @
                                [''SMC Sync: '' @ actionName action @ '' RR: '' @
                                 showFixed2 rr @ '':1'']\<rparr>)"

definition evaluate :: "StrategyConfig \<Rightarrow> OHLCV list \<Rightarrow> RuntimeError + TradeSignal" where
  "evaluate cfg candles =
     (if length candles = 0 then Inl TypeError
      else
        let signal = noTradeSignal candles in
        if length candles < 100 then Inr signal
        else Inr (evaluateRules cfg candles signal))"

text \<open>
  The confluence engine's \<open>StrategyEngine.evaluate\<close>: every return goes through
  \<open>createSignal\<close>, which stamps the signal with \<open>Date.now()\<close>. The wall clock read by the
  call is the argument \<open>now\<close>; the evaluation for 50 candles or more is the parameter
  \<open>rules\<close>, which receives the clock as well.
\<close>

definition createSignal ::
  "int \<Rightarrow> TradeAction \<Rightarrow> rat \<Rightarrow> string list \<Rightarrow> rat \<Rightarrow> rat option \<Rightarrow> rat option \<Rightarrow>
   rat option \<Rightarrow> string option \<Rightarrow> TradeSignal" where
  "createSignal now action conf reasoning price stopLoss takeProfit1 takeProfit2 timeframe =
     \<lparr>sig_action = action, sig_confidence = conf, sig_reasoning = reasoning,
      sig_price = price, sig_timestamp = now, sig_stopLoss = stopLoss,
      sig_takeProfit1 = takeProfit1, sig_takeProfit2 = takeProfit2,
      sig_timeframe = timeframe\<rparr>"

definition evaluateConfluence ::
  "(int \<Rightarrow> OHLCV list \<Rightarrow> TradeSignal) \<Rightarrow> int \<Rightarrow> OHLCV list \<Rightarrow> TradeSignal" where
  "evaluateConfluence rules now candles =
     (if length candles < 50
      then createSignal now NO_TRADE 0 [''Insufficient data (need 50+)'']
             (orElse (if length candles = 0 then None
                      else Some (close (candles ! (length candles - 1)))) 0)
             None None None None
      else rules now candles)"

section \<open>Swing window property\<close>

lemma sorted_wrt_filter_upt: "sorted_wrt (<) (filter P [a..<b])"
  by (simp add: sorted_wrt_filter)

lemma swingHigh_index_map:
  "map sp_index (findSwingHighs cs l r) = filter (isSwingHigh cs l r) [l..<length cs - r]"
  by (simp add: findSwingHighs_def swingHighAt_def comp_def)

lemma swingLow_index_map:
  "map sp_index (findSwingLows cs l r) = filter (isSwingLow cs l r) [l..<length cs - r]"
  by (simp add: findSwingLows_def swingLowAt_def comp_def)

lemma swingHigh_mem:
  assumes "s \<in> set (findSwingHighs cs l r)"
  shows "s = swingHighAt cs (sp_index s)" and "isSwingHigh cs l r (sp_index s)"
    and "l \<le> sp_index s" and "sp_index s + r < length cs"
  using assms by (auto simp: findSwingHighs_def swingHighAt_def)

lemma swingLow_mem:
  assumes "s \<in> set (findSwingLows cs l r)"
  shows "s = swingLowAt cs (sp_index s)" and "isSwingLow cs l r (sp_index s)"
    and "l \<le> sp_index s" and "sp_index s + r < length cs"
  using assms by (auto simp: findSwingLows_def swingLowAt_def)

lemma isSwingHigh_left:
  assumes "isSwingHigh cs l r i" and "i - l \<le> k" and "k < i"
  shows "high (cs ! k) < high (cs ! i)"
proof -
  have "i - k \<in> set [1..<Suc l]" using assms(2,3) by auto
  with assms(1) have "\<not> high (cs ! (i - (i - k))) \<ge> high (cs ! i)"
    unfolding isSwingHigh_def list_all_iff by blast
  with assms(3) show ?thesis by simp
qed

lemma isSwingHigh_right:
  assumes "isSwingHigh cs l r i" and "i < k" and "k \<le> i + r"
  shows "high (cs ! k) \<le> high (cs ! i)"
proof -
  have "k - i \<in> set [1..<Suc r]" using assms(2,3) by auto
  with assms(1) have "\<not> high (cs ! (i + (k - i))) > high (cs ! i)"
    unfolding isSwingHigh_def list_all_iff by blast
  with assms(2) show ?thesis by simp
qed

lemma isSwingLow_left:
  assumes "isSwingLow cs l r i" and "i - l \<le> k" and "k < i"
  shows "low (cs ! k) > low (cs ! i)"
proof -
  have "i - k \<in> set [1..<Suc l]" using assms(2,3) by auto
  with assms(1) have "\<not> low (cs ! (i - (i - k))) \<le> low (cs ! i)"
    unfolding isSwingLow_def list_all_iff by blast
  with assms(3) show ?thesis by simp
qed

lemma isSwingLow_right:
  assumes "isSwingLow cs l r i" and "i < k" and "k \<le> i + r"
  shows "low (cs ! k) \<ge> low (cs ! i)"
proof -
  have "k - i \<in> set [1..<Suc r]" using assms(2,3) by auto
  with assms(1) have "\<not> low (cs ! (i + (k - i))) < low (cs ! i)"
    unfolding isSwingLow_def list_all_iff by blast
  with assms(2) show ?thesis by simp
qed

text \<open>
  C4. Every swing high returned at index \<open>i\<close> lies in \<open>[left, length - right)\<close>, carries
  the high of candle \<open>i\<close>, has no candle in \<open>[i - left, i - 1]\<close> with a high \<open>\<ge>\<close> it and no
  candle in \<open>[i + 1, i + right]\<close> with a high \<open>>\<close> it; swing lows satisfy the mirrored
  comparisons; both lists are strictly ascending by index.
\<close>

theorem swing_window_property:
  "(\<forall>s \<in> set (findSwingHighs cs l r).
      l \<le> sp_index s \<and> sp_index s + r < length cs \<and>
      sp_price s = high (cs ! sp_index s) \<and>
      (\<forall>k. sp_index s - l \<le> k \<and> k < sp_index s \<longrightarrow>
           \<not> high (cs ! k) \<ge> high (cs ! sp_index s)) \<and>
      (\<forall>k. sp_index s < k \<and> k \<le> sp_index s + r \<longrightarrow>
           \<not> high (cs ! k) > high (cs ! sp_index s))) \<and>
   (\<forall>s \<in> set (findSwingLows cs l r).
      l \<le> sp_index s \<and> sp_index s + r < length cs \<and>
      sp_price s = low (cs ! sp_index s) \<and>
      (\<forall>k. sp_index s - l \<le> k \<and> k < sp_index s \<longrightarrow>
           \<not> low (cs ! k) \<le> low (cs ! sp_index s)) \<and>
      (\<forall>k. sp_index s < k \<and> k \<le> sp_index s + r \<longrightarrow>
           \<not> low (cs ! k) < low (cs ! sp_index s))) \<and>
   sorted_wrt (<) (map sp_index (findSwingHighs cs l r)) \<and>
   sorted_wrt (<) (map sp_index (findSwingLows cs l r))"
proof (intro conjI ballI allI impI)
  fix s assume s: "s \<in> set (findSwingHighs cs l r)"
  note m = swingHigh_mem [OF s]
  show "l \<le> sp_index s" by (rule m(3))
  show "sp_index s + r < length cs" by (rule m(4))
  show "sp_price s = high (cs ! sp_index s)"
    using m(1) by (metis SwingPoint.select_convs(2) swingHighAt_def)
  { fix k assume "sp_index s - l \<le> k \<and> k < sp_index s"
    then show "\<not> high (cs ! k) \<ge> high (cs ! sp_index s)"
      using isSwingHigh_left [OF m(2)] by (simp add: not_le) }
  { fix k assume "sp_index s < k \<and> k \<le> sp_index s + r"
    then show "\<not> high (cs ! k) > high (cs ! sp_index s)"
      using isSwingHigh_right [OF m(2)] by (simp add: not_less) }
next
  fix s assume s: "s \<in> set (findSwingLows cs l r)"
  note m = swingLow_mem [OF s]
  show "l \<le> sp_index s" by (rule m(3))
  show "sp_index s + r < length cs" by (rule m(4))
  show "sp_price s = low (cs ! sp_index s)"
    using m(1) by (metis SwingPoint.select_convs(2) swingLowAt_def)
  { fix k assume "sp_index s - l \<le> k \<and> k < sp_index s"
    then show "\<not> low (cs ! k) \<le> low (cs ! sp_index s)"
      using isSwingLow_left [OF m(2)] by (simp add: not_le) }
  { fix k assume "sp_index s < k \<and> k \<le> sp_index s + r"
    then show "\<not> low (cs ! k) < low (cs ! sp_index s)"
      using isSwingLow_right [OF m(2)] by (simp add: not_less) }
next
  show "sorted_wrt (<) (map sp_index (findSwingHighs cs l r))"
    by (simp only: swingHigh_index_map sorted_wrt_filter_upt)
  show "sorted_wrt (<) (map sp_index (findSwingLows cs l r))"
    by (simp only: swingLow_index_map sorted_wrt_filter_upt)
qed

theorem swing_window_property_witness:
  "swingHighAt peakCandles 2 \<in> set (findSwingHighs peakCandles 2 2) \<and>
   \<not> high (peakCandles ! 1) \<ge> high (peakCandles ! 2) \<and>
   \<not> high (peakCandles ! 4) > high (peakCandles ! 2)"
proof -
  have m: "swingHighAt peakCandles 2 \<in> set (findSwingHighs peakCandles 2 2)"
    by code_simp
  have i: "sp_index (swingHighAt peakCandles 2) = 2"
    by (simp add: swingHighAt_def)
  from swing_window_property [of peakCandles 2 2] m
  have "(\<forall>k. sp_index (swingHighAt peakCandles 2) - 2 \<le> k \<and>
             k < sp_index (swingHighAt peakCandles 2) \<longrightarrow>
           \<not> high (peakCandles ! k) \<ge> high (peakCandles ! sp_index (swingHighAt peakCandles 2)))"
    and "(\<forall>k. sp_index (swingHighAt peakCandles 2) < k \<and>
             k \<le> sp_index (swingHighAt peakCandles 2) + 2 \<longrightarrow>
           \<not> high (peakCandles ! k) > high (peakCandles ! sp_index (swingHighAt peakCandles 2)))"
    by blast+
  then have "\<not> high (peakCandles ! 1) \<ge> high (peakCandles ! 2)"
    and "\<not> high (peakCandles ! 4) > high (peakCandles ! 2)"
    unfolding i by simp_all
  with m show ?thesis by blast
qed

section \<open>No lookahead in the structure classifier\<close>

lemma advance_stop:
  "\<not> (k < length swings \<and> sp_index (swings ! k) < i) \<Longrightarrow> advance swings i k a = (k, a)"
  by (subst advance.simps) auto

lemma advance_go:
  "k < length swings \<Longrightarrow> sp_index (swings ! k) < i \<Longrightarrow>
   advance swings i k a = advance swings i (Suc k) (Some (swings ! k))"
  by (subst advance.simps) auto

lemma advance_active:
  assumes "\<forall>s. a = Some s \<longrightarrow> s \<in> set swings \<and> sp_index s < i"
    and "snd (advance swings i k a) = Some s"
  shows "s \<in> set swings \<and> sp_index s < i"
  using assms
proof (induction swings i k a rule: advance.induct)
  case (1 swings i k a)
  show ?case
  proof (cases "k < length swings \<and> sp_index (swings ! k) < i")
    case True
    then have "snd (advance swings i (Suc k) (Some (swings ! k))) = Some s"
      using "1.prems"(2) by (simp add: advance_go)
    moreover have "\<forall>t. Some (swings ! k) = Some t \<longrightarrow> t \<in> set swings \<and> sp_index t < i"
      using True by auto
    ultimately show ?thesis using "1.IH" True by blast
  next
    case False
    from advance_stop [OF False, of a] "1.prems"(2) have "a = Some s" by simp
    then show ?thesis using "1.prems"(1) by blast
  qed
qed

lemma activeOk_initial: "activeOk highs lows i initialBreakState"
  by (simp add: activeOk_def initialBreakState_def)

lemma activeOk_mono: "activeOk highs lows i st \<Longrightarrow> i \<le> j \<Longrightarrow> activeOk highs lows j st"
  by (fastforce simp: activeOk_def)

lemma activeOk_updateActive:
  assumes "activeOk highs lows i st"
  shows "activeOk highs lows i (updateActive highs lows i st)"
proof -
  have h: "\<forall>s. lastHigh st = Some s \<longrightarrow> s \<in> set highs \<and> sp_index s < i"
    and l: "\<forall>s. lastLow st = Some s \<longrightarrow> s \<in> set lows \<and> sp_index s < i"
    using assms by (simp_all add: activeOk_def)
  have lh: "lastHigh (updateActive highs lows i st)
              = snd (advance highs i (currentHighIndex st) (lastHigh st))"
    by (simp add: updateActive_def split_beta Let_def)
  have ll: "lastLow (updateActive highs lows i st)
              = snd (advance lows i (currentLowIndex st) (lastLow st))"
    by (simp add: updateActive_def split_beta Let_def)
  show ?thesis
    unfolding activeOk_def lh ll
    using advance_active [OF h] advance_active [OF l] by blast
qed

lemma classify_lastHigh: "lastHigh (classify c i st) = Some s \<Longrightarrow> lastHigh st = Some s"
  by (auto simp: classify_def Let_def split: option.splits if_splits)

lemma classify_lastLow: "lastLow (classify c i st) = Some s \<Longrightarrow> lastLow st = Some s"
  by (auto simp: classify_def Let_def split: option.splits if_splits)

lemma activeOk_classify: "activeOk highs lows i st \<Longrightarrow> activeOk highs lows i (classify c j st)"
  unfolding activeOk_def using classify_lastHigh classify_lastLow by blast

lemma stateAt_Suc:
  "stateAt cs highs lows (Suc i) = breakStep cs highs lows i (stateAt cs highs lows i)"
  by (simp add: stateAt_def)

lemma stateAt_Suc_active:
  "stateAt cs highs lows (Suc i) = classify (cs ! i) i (activeAt cs highs lows i)"
  by (simp add: stateAt_Suc breakStep_def activeAt_def)

lemma activeOk_stateAt: "activeOk highs lows i (stateAt cs highs lows i)"
proof (induction i)
  case 0
  show ?case by (simp add: stateAt_def activeOk_initial)
next
  case (Suc i)
  have "activeOk highs lows i (breakStep cs highs lows i (stateAt cs highs lows i))"
    unfolding breakStep_def
    by (intro activeOk_classify activeOk_updateActive Suc.IH)
  then show ?case
    unfolding stateAt_Suc by (rule activeOk_mono) simp
qed

lemma activeOk_activeAt: "activeOk highs lows i (activeAt cs highs lows i)"
  unfolding activeAt_def by (intro activeOk_updateActive activeOk_stateAt)

text \<open>
  C1 (as amended). While the classifier processes candle \<open>i\<close>, a swing it holds as the
  active high or low is one of the detected swings and has an index strictly below \<open>i\<close>;
  the cursor test is \<open>swing.index < i\<close>, so the swing's confirmation index
  \<open>index + right\<close> may still be at or after \<open>i\<close>. Whenever candle \<open>i\<close> trades beyond the
  active swing (the condition under which a break is emitted against it), that swing's
  confirmation index is strictly before \<open>i\<close>.
\<close>

theorem active_swing_precedes_candle:
  "(\<forall>s. lastHigh (analyzerActiveAt cs l r i) = Some s \<longrightarrow>
        s \<in> set (findSwingHighs cs l r) \<and> sp_index s < i \<and>
        (high (cs ! i) > sp_price s \<longrightarrow> sp_index s + r < i)) \<and>
   (\<forall>s. lastLow (analyzerActiveAt cs l r i) = Some s \<longrightarrow>
        s \<in> set (findSwingLows cs l r) \<and> sp_index s < i \<and>
        (low (cs ! i) < sp_price s \<longrightarrow> sp_index s + r < i))"
proof (intro conjI allI impI)
  let ?hs = "findSwingHighs cs l r" and ?ls = "findSwingLows cs l r"
  have ok: "activeOk ?hs ?ls i (analyzerActiveAt cs l r i)"
    unfolding analyzerActiveAt_def by (rule activeOk_activeAt)
  { fix s assume a: "lastHigh (analyzerActiveAt cs l r i) = Some s"
    with ok show m: "s \<in> set ?hs" and lt: "sp_index s < i" by (simp_all add: activeOk_def)
    assume b: "high (cs ! i) > sp_price s"
    show "sp_index s + r < i"
    proof (rule ccontr)
      assume "\<not> sp_index s + r < i"
      then have "high (cs ! i) \<le> high (cs ! sp_index s)"
        using isSwingHigh_right [OF swingHigh_mem(2) [OF m], of i] lt by simp
      moreover have "sp_price s = high (cs ! sp_index s)"
        using swingHigh_mem(1) [OF m] by (metis SwingPoint.select_convs(2) swingHighAt_def)
      ultimately show False using b by simp
    qed }
  { fix s assume a: "lastLow (analyzerActiveAt cs l r i) = Some s"
    with ok show m: "s \<in> set ?ls" and lt: "sp_index s < i" by (simp_all add: activeOk_def)
    assume b: "low (cs ! i) < sp_price s"
    show "sp_index s + r < i"
    proof (rule ccontr)
      assume "\<not> sp_index s + r < i"
      then have "low (cs ! i) \<ge> low (cs ! sp_index s)"
        using isSwingLow_right [OF swingLow_mem(2) [OF m], of i] lt by simp
      moreover have "sp_price s = low (cs ! sp_index s)"
        using swingLow_mem(1) [OF m] by (metis SwingPoint.select_convs(2) swingLowAt_def)
      ultimately show False using b by simp
    qed }
qed

theorem active_swing_precedes_candle_witness:
  "lastLow (analyzerActiveAt reversalCandles 2 2 7) = Some (swingLowAt reversalCandles 2) \<and>
   low (reversalCandles ! 7) < sp_price (swingLowAt reversalCandles 2) \<and>
   sp_index (swingLowAt reversalCandles 2) + 2 < 7"
proof -
  have a: "lastLow (analyzerActiveAt reversalCandles 2 2 7) = Some (swingLowAt reversalCandles 2)"
    by code_simp
  have b: "low (reversalCandles ! 7) < sp_price (swingLowAt reversalCandles 2)"
    by code_simp
  from active_swing_precedes_candle [of reversalCandles 2 2 7] a b show ?thesis
    by blast
qed

text \<open>
  At candle 3 of the five-candle example the active high is the swing at index 2, whose
  right window (candles 3 and 4) has not been seen yet.
\<close>

theorem active_swing_unconfirmed_counterexample:
  "lastHigh (analyzerActiveAt peakCandles 2 2 3) = Some (swingHighAt peakCandles 2) \<and>
   \<not> sp_index (swingHighAt peakCandles 2) + 2 < 3"
  by code_simp

section \<open>Rising candles and the reported structure\<close>

lemma rising_no_swingHighs:
  assumes "\<forall>i. Suc i < length cs \<longrightarrow> high (cs ! i) < high (cs ! Suc i)" and "0 < r"
  shows "findSwingHighs cs l r = []"
proof -
  have "\<not> isSwingHigh cs l r i" if "i \<in> set [l..<length cs - r]" for i
  proof -
    from that assms(2) have "Suc i < length cs" by auto
    with assms(1) have "high (cs ! (i + 1)) > high (cs ! i)" by simp
    moreover have "1 \<in> set [1..<Suc r]" using assms(2) by auto
    ultimately show ?thesis
      unfolding isSwingHigh_def list_all_iff by blast
  qed
  then show ?thesis by (simp add: findSwingHighs_def filter_empty_conv)
qed

lemma advance_Nil: "advance [] i k a = (k, a)"
  by (rule advance_stop) simp

lemma classify_no_high: "lastHigh st = None \<Longrightarrow> classify c i st = st"
  by (simp add: classify_def)

lemma breakStep_no_highs:
  assumes "lastHigh st = None" and "breaks st = []"
  shows "lastHigh (breakStep cs [] lows i st) = None \<and> breaks (breakStep cs [] lows i st) = []"
proof -
  have "lastHigh (updateActive [] lows i st) = None \<and> breaks (updateActive [] lows i st) = []"
    using assms by (simp add: updateActive_def advance_Nil split_beta Let_def)
  then show ?thesis by (simp add: breakStep_def classify_no_high)
qed

lemma stateAt_no_highs:
  "lastHigh (stateAt cs [] lows i) = None \<and> breaks (stateAt cs [] lows i) = []"
proof (induction i)
  case 0
  show ?case by (simp add: stateAt_def initialBreakState_def)
next
  case (Suc i)
  then show ?case unfolding stateAt_Suc by (intro breakStep_no_highs) simp_all
qed

lemma rising_no_breaks:
  assumes "\<forall>i. Suc i < length cs \<longrightarrow> high (cs ! i) < high (cs ! Suc i)"
  shows "an_swingHighs (analyze cs) = [] \<and> an_breaks (analyze cs) = [] \<and>
         an_structure (analyze cs) = RANGING"
proof -
  have h: "findSwingHighs cs 2 2 = []" using assms by (intro rising_no_swingHighs) simp_all
  have b: "findStructureBreaks cs [] (findSwingLows cs 2 2) = []"
    by (simp add: findStructureBreaks_def stateAt_no_highs)
  show ?thesis by (simp add: analyze_def Let_def h b structureOf_def)
qed

lemma structureOf_last:
  "structureOf bks =
     (case filter (\<lambda>b. sb_type b \<noteq> SWEEP) bks of
        [] \<Rightarrow> RANGING | b # bs \<Rightarrow> sb_direction (last (b # bs)))"
proof (cases "filter (\<lambda>b. sb_type b \<noteq> SWEEP) bks")
  case Nil
  then show ?thesis by (simp add: structureOf_def)
next
  case (Cons b bs)
  then show ?thesis
    by (simp add: structureOf_def Let_def last_conv_nth del: last.simps)
qed

lemma risingCandles_rising:
  "\<forall>i. Suc i < length (risingCandles n) \<longrightarrow>
       high (risingCandles n ! i) < high (risingCandles n ! Suc i)"
  by (simp add: risingCandles_def candle_def)

lemma risingCandles_increasing:
  "length (risingCandles n) = n \<and>
   (\<forall>i. Suc i < n \<longrightarrow>
      opn (risingCandles n ! i) < close (risingCandles n ! i) \<and>
      close (risingCandles n ! i) < opn (risingCandles n ! Suc i))"
  by (simp add: risingCandles_def candle_def)

text \<open>
  C2 (as amended). When the highs of the candles strictly increase, as they do for rising
  candles with high = close, no candle is a swing high, so the classifier never has an
  active high: it emits no break at all (no BOS and no SWEEP) and the structure is
  RANGING. In general the reported structure is the direction of the last BOS/CHOCH
  break, RANGING when there is none, and it is unchanged when the SWEEP events are
  removed from the break list.
\<close>

theorem rising_candles_structure:
  "((\<forall>i. Suc i < length cs \<longrightarrow> high (cs ! i) < high (cs ! Suc i)) \<longrightarrow>
      an_swingHighs (analyze cs) = [] \<and> an_breaks (analyze cs) = [] \<and>
      an_structure (analyze cs) = RANGING) \<and>
   an_structure (analyze cs) =
     (case filter (\<lambda>b. sb_type b \<noteq> SWEEP) (an_breaks (analyze cs)) of
        [] \<Rightarrow> RANGING | b # bs \<Rightarrow> sb_direction (last (b # bs))) \<and>
   an_structure (analyze cs) =
     structureOf (filter (\<lambda>b. sb_type b \<noteq> SWEEP) (an_breaks (analyze cs)))"
proof (intro conjI impI)
  assume "\<forall>i. Suc i < length cs \<longrightarrow> high (cs ! i) < high (cs ! Suc i)"
  from rising_no_breaks [OF this]
  show "an_swingHighs (analyze cs) = []" and "an_breaks (analyze cs) = []"
    and "an_structure (analyze cs) = RANGING" by simp_all
next
  have s: "an_structure (analyze cs) = structureOf (an_breaks (analyze cs))"
    by (simp add: analyze_def Let_def)
  show "an_structure (analyze cs) =
     (case filter (\<lambda>b. sb_type b \<noteq> SWEEP) (an_breaks (analyze cs)) of
        [] \<Rightarrow> RANGING | b # bs \<Rightarrow> sb_direction (last (b # bs)))"
    unfolding s by (rule structureOf_last)
  show "an_structure (analyze cs) =
     structureOf (filter (\<lambda>b. sb_type b \<noteq> SWEEP) (an_breaks (analyze cs)))"
    unfolding s by (simp add: structureOf_def)
qed

theorem rising_candles_structure_witness:
  "an_swingHighs (analyze (risingCandles 6)) = [] \<and>
   an_breaks (analyze (risingCandles 6)) = [] \<and>
   an_structure (analyze (risingCandles 6)) = RANGING"
  using rising_candles_structure [of "risingCandles 6"] risingCandles_rising [of 6]
  by blast

text \<open>
  Sixty candles with \<open>open_i < close_i < open_(i+1)\<close> (lemma \<open>risingCandles_increasing\<close>):
  the analyzer reports RANGING and an empty break list, not BULLISH with a BOS.
\<close>

theorem sixty_rising_candles_counterexample:
  "length (risingCandles 60) = 60 \<and>
   an_structure (analyze (risingCandles 60)) = RANGING \<and>
   an_breaks (analyze (risingCandles 60)) = []"
  using rising_no_breaks [OF risingCandles_rising [of 60]] risingCandles_increasing [of 60]
  by simp

section \<open>Zone mitigation\<close>
























lemma mkFVG_append: "i < length c \<Longrightarrow> mkFVG (c @ e) ty tp bt i = mkFVG c ty tp bt i"
  by (simp add: mkFVG_def nth_append)










section \<open>Multi-timeframe alignment\<close>

text \<open>
  C8 (as amended). The result is aligned iff both contexts are present and report the
  same non-RANGING trend, and then the confidence is the mean of the two strengths
  divided by 100 (daily BULLISH 80 with four-hour BULLISH 60 gives 0.70). If the daily
  trend is non-RANGING with strength above 60 and the four-hour trend is RANGING, the
  result is the daily trend, unaligned, with confidence strength / 150. In every other
  case, also when only the four-hour trend is non-RANGING, the result is RANGING,
  unaligned, confidence 0.
\<close>

theorem aligned_trend_cases:
  "(isAligned (determineAlignedTrend daily fourHour) \<longleftrightarrow>
      (\<exists>d f. daily = Some d \<and> fourHour = Some f \<and>
             htf_trend d = htf_trend f \<and> htf_trend d \<noteq> RANGING)) \<and>
   (daily = Some d \<and> fourHour = Some f \<and> htf_trend d = htf_trend f \<and> htf_trend d \<noteq> RANGING \<longrightarrow>
      determineAlignedTrend daily fourHour =
        \<lparr>alignedTrend = htf_trend d, isAligned = True,
         confidence = ((trendStrength d + trendStrength f) / 2) / 100\<rparr>) \<and>
   (daily = Some d \<and> fourHour = Some f \<and> htf_trend d \<noteq> RANGING \<and> htf_trend f = RANGING \<and>
    trendStrength d > 60 \<longrightarrow>
      determineAlignedTrend daily fourHour =
        \<lparr>alignedTrend = htf_trend d, isAligned = False, confidence = trendStrength d / 150\<rparr>) \<and>
   (\<not> (\<exists>d f. daily = Some d \<and> fourHour = Some f \<and>
            ((htf_trend d = htf_trend f \<and> htf_trend d \<noteq> RANGING) \<or>
             (htf_trend d \<noteq> RANGING \<and> htf_trend f = RANGING \<and> trendStrength d > 60))) \<longrightarrow>
      determineAlignedTrend daily fourHour =
        \<lparr>alignedTrend = RANGING, isAligned = False, confidence = 0\<rparr>)"
  by (cases daily; cases fourHour) (auto simp: determineAlignedTrend_def Let_def)

theorem aligned_trend_cases_witness:
  "determineAlignedTrend (Some (htfContext BULLISH 80)) (Some (htfContext BULLISH 60)) =
     \<lparr>alignedTrend = BULLISH, isAligned = True, confidence = 7 / 10\<rparr> \<and>
   determineAlignedTrend (Some (htfContext BEARISH 90)) (Some (htfContext RANGING 0)) =
     \<lparr>alignedTrend = BEARISH, isAligned = False, confidence = 3 / 5\<rparr> \<and>
   determineAlignedTrend (Some (htfContext RANGING 0)) None =
     \<lparr>alignedTrend = RANGING, isAligned = False, confidence = 0\<rparr>"
proof -
  have a: "htf_trend (htfContext BULLISH 80) = BULLISH" "htf_trend (htfContext BULLISH 60) = BULLISH"
    "trendStrength (htfContext BULLISH 80) = 80" "trendStrength (htfContext BULLISH 60) = 60"
    "htf_trend (htfContext BEARISH 90) = BEARISH" "htf_trend (htfContext RANGING 0) = RANGING"
    "trendStrength (htfContext BEARISH 90) = 90"
    by (simp_all add: htfContext_def)
  note t1 = aligned_trend_cases [of "Some (htfContext BULLISH 80)" "Some (htfContext BULLISH 60)"
      "htfContext BULLISH 80" "htfContext BULLISH 60"]
  note t2 = aligned_trend_cases [of "Some (htfContext BEARISH 90)" "Some (htfContext RANGING 0)"
      "htfContext BEARISH 90" "htfContext RANGING 0"]
  note t3 = aligned_trend_cases [of "Some (htfContext RANGING 0)" None]
  have "determineAlignedTrend (Some (htfContext BULLISH 80)) (Some (htfContext BULLISH 60)) =
     \<lparr>alignedTrend = BULLISH, isAligned = True, confidence = 7 / 10\<rparr>"
    using t1 a by simp
  moreover have "determineAlignedTrend (Some (htfContext BEARISH 90)) (Some (htfContext RANGING 0)) =
     \<lparr>alignedTrend = BEARISH, isAligned = False, confidence = 3 / 5\<rparr>"
    using t2 a by simp
  moreover have "determineAlignedTrend (Some (htfContext RANGING 0)) None =
     \<lparr>alignedTrend = RANGING, isAligned = False, confidence = 0\<rparr>"
    using t3 by simp
  ultimately show ?thesis by blast
qed

text \<open>
  Exactly one timeframe, the four-hour one, is non-RANGING with strength 80: there is
  no fallback to it.
\<close>

theorem four_hour_fallback_counterexample:
  "determineAlignedTrend (Some (htfContext RANGING 0)) (Some (htfContext BULLISH 80)) =
     \<lparr>alignedTrend = RANGING, isAligned = False, confidence = 0\<rparr>"
  by (simp add: determineAlignedTrend_def htfContext_def)

section \<open>Profit factor\<close>



lemma grossProfit_nonneg: "0 \<le> grossProfit ps"
  unfolding grossProfit_def by (induction ps) auto










section \<open>Position sizing and position opening\<close>

lemma calculatePositionSize_capped:
  assumes "0 < entryPrice" and "0 \<le> capital * leverage"
  shows "fst (calculatePositionSize capital riskPerTrade leverage entryPrice stopLoss) * entryPrice
           \<le> capital * leverage"
proof (cases "\<bar>entryPrice - stopLoss\<bar> = 0")
  case True
  then show ?thesis using assms(2) by (simp add: calculatePositionSize_def)
next
  case False
  define shares0 where "shares0 = capital * riskPerTrade / \<bar>entryPrice - stopLoss\<bar>"
  define shares where "shares =
    (if shares0 * entryPrice > capital * leverage then capital * leverage / entryPrice else shares0)"
  have r: "fst (calculatePositionSize capital riskPerTrade leverage entryPrice stopLoss)
             = of_int \<lfloor>shares * 100\<rfloor> / 100"
    using False by (simp add: calculatePositionSize_def Let_def shares_def shares0_def)
  have c: "shares * entryPrice \<le> capital * leverage"
    using assms(1) by (simp add: shares_def)
  have "(of_int \<lfloor>shares * 100\<rfloor> :: rat) \<le> shares * 100" by (rule of_int_floor_le)
  then have "(of_int \<lfloor>shares * 100\<rfloor> :: rat) / 100 \<le> shares" by simp
  then have "of_int \<lfloor>shares * 100\<rfloor> / 100 * entryPrice \<le> shares * entryPrice"
    using assms(1) by (simp add: mult_right_mono)
  with c show ?thesis unfolding r by simp
qed

text \<open>
  C6. The claim: the recommended quantity satisfies quantity * entryPrice \<le> balance *
  maxLeverage. \<open>AccountManager.calculatePositionSize\<close> enforces such a cap (lemma
  \<open>calculatePositionSize_capped\<close>); \<open>intelligentSizing\<close> of \<open>PositionSizer.ts\<close> does not. With
  the default sizer (balance 25000, risk 1 percent), entry 100 and stop 99.96875 the
  recommended quantity is 7300 units, a position value of 730000: more than 29 times the
  balance, above any leverage limit of 10.
\<close>

theorem intelligent_sizing_exceeds_leverage:
  "map_sum id (\<lambda>r. rec_quantity (recommendation r))
     (intelligentSizing (newPositionSizer defaultSizingConfig) (sizingParams 100 (3199 / 32)))
     = Inr 7300 \<and>
   (7300 :: rat) * 100 > accountBalance defaultSizingConfig * 10"
  by code_simp

lemma enterOnSignal_opens_only:
  assumes "enterOnSignal coin c sg st = Inr st'" and "be_positions st' \<noteq> be_positions st"
  shows "be_positions st coin = None \<and> (sig_action sg = BUY \<or> sig_action sg = SELL) \<and>
         (\<exists>p. be_positions st' = (be_positions st)(coin \<mapsto> p) \<and> pos_quantity p > 0 \<and>
              be_equity st' = be_equity st - pos_quantity p * sig_price sg * be_commission st)"
  using assms
  by (auto simp: enterOnSignal_def Let_def split: option.splits if_splits sum.splits)

text \<open>
  C5. The claim: a position is opened only when none is open for the instrument, the
  pre-trade risk gate passes and the quantity is positive. In \<open>runBacktest\<close>, after three
  losing trades the gate computed by \<open>intelligentSizing\<close> fails (loss streak and daily
  loss cap), yet the BUY signal opens a position of 85.775 units: the entry logic never
  reads \<open>riskCheck\<close>. In the strategy engine's \<open>run\<close>, a second BUY signal arriving while
  the first position is still open (no exit on that candle) replaces it. What the entry
  logic of \<open>runBacktest\<close> does guarantee is lemma \<open>enterOnSignal_opens_only\<close>.
\<close>

theorem position_opened_despite_risk_gate:
  "be_positions afterThreeLosses ''BTCUSD'' = None \<and>
   map_sum id (\<lambda>r. canOpen (riskCheck r))
     (intelligentSizing (be_positionSizer afterThreeLosses) (sizingParams 100 98)) = Inr False \<and>
   map_sum id (\<lambda>st. map_option pos_quantity (be_positions st ''BTCUSD''))
     (enterOnSignal ''BTCUSD'' (candle 60 100 101 99 100) buySignal afterThreeLosses)
     = Inr (Some (3431 / 40)) \<and>
   map_option ps_entryPrice
     (sbt_currentPosition
        (entryStep (Some (strategyBuy 100)) (candle 60 100 101 99 100) ''S'' freshBacktest))
     = Some 100 \<and>
   map_option (\<lambda>p. checkExit p (candle 61 101 102 100 101))
     (sbt_currentPosition
        (entryStep (Some (strategyBuy 100)) (candle 60 100 101 99 100) ''S'' freshBacktest))
     = Some None \<and>
   map_option ps_entryPrice
     (sbt_currentPosition
        (entryStep (Some (strategyBuy 101)) (candle 61 101 102 100 101) ''S''
           (entryStep (Some (strategyBuy 100)) (candle 60 100 101 99 100) ''S'' freshBacktest)))
     = Some 101"
  by code_simp

section \<open>Insufficient data and referential transparency\<close>

lemma findSwingHighs_short: "length cs < l + r + 1 \<Longrightarrow> findSwingHighs cs l r = []"
  by (simp add: findSwingHighs_def)

lemma findSwingLows_short: "length cs < l + r + 1 \<Longrightarrow> findSwingLows cs l r = []"
  by (simp add: findSwingLows_def)

lemma findFVGs_short: "length cs < 3 \<Longrightarrow> findFVGs cs = []"
  by (simp add: findFVGs_def)

lemma detectOrderBlocks_short: "length cs < 10 \<Longrightarrow> detectOrderBlocks cs n = []"
  by (simp add: detectOrderBlocks_def)

lemma analyze_short:
  assumes "length cs < 5"
  shows "an_swingHighs (analyze cs) = [] \<and> an_swingLows (analyze cs) = [] \<and>
         an_breaks (analyze cs) = [] \<and> an_orderBlocks (analyze cs) = [] \<and>
         an_structure (analyze cs) = RANGING \<and> an_dealingRange (analyze cs) = None"
proof -
  have h: "findSwingHighs cs 2 2 = []" using assms by (simp add: findSwingHighs_short)
  have l: "findSwingLows cs 2 2 = []" using assms by (simp add: findSwingLows_short)
  have b: "findStructureBreaks cs [] [] = []"
    by (simp add: findStructureBreaks_def stateAt_no_highs)
  show ?thesis
    by (simp add: analyze_def Let_def h l b structureOf_def findOrderBlocks_def
        findDealingRange_def)
qed

lemma evaluate_insufficient:
  "0 < length cs \<Longrightarrow> length cs < 100 \<Longrightarrow>
   evaluate cfg cs = Inr (noTradeSignal cs) \<and> sig_action (noTradeSignal cs) = NO_TRADE"
  by (simp add: evaluate_def noTradeSignal_def)

lemma evaluateConfluence_insufficient:
  "length cs < 50 \<Longrightarrow> sig_action (evaluateConfluence rules now cs) = NO_TRADE"
  by (simp add: evaluateConfluence_def createSignal_def)

text \<open>
  C9. The claim: below its minimum length, the empty array included, every core
  operation returns a neutral or empty result and never throws. The swing finders, the
  gap finder, the analyzer, \<open>detectOrderBlocks\<close> and the evaluator on 1 to 99 candles do
  (lemmas \<open>findSwingHighs_short\<close>, \<open>findSwingLows_short\<close>, \<open>findFVGs_short\<close>,
  \<open>analyze_short\<close>, \<open>detectOrderBlocks_short\<close>, \<open>evaluate_insufficient\<close>). On the empty
  array the evaluator throws: it reads the close of the last candle before it tests the
  length.
\<close>

theorem evaluate_empty_throws:
  "evaluate OPTIMIZED_CONFIG [] = Inl TypeError"
  by (simp add: evaluate_def)

text \<open>
  C10. The claim: two invocations of the evaluator on identical inputs return identical
  signals in every field, the timestamp included. The confluence engine's evaluator
  builds every signal with \<open>createSignal\<close>, whose timestamp is \<open>Date.now()\<close>: the same
  one-candle array evaluated at clock readings 1000 and 2000 gives two different
  signals.
\<close>

theorem signal_timestamp_from_clock:
  "sig_timestamp (evaluateConfluence rules 1000 [candle 0 1 2 0 1]) = 1000 \<and>
   sig_timestamp (evaluateConfluence rules 2000 [candle 0 1 2 0 1]) = 2000 \<and>
   evaluateConfluence rules 1000 [candle 0 1 2 0 1]
     \<noteq> evaluateConfluence rules 2000 [candle 0 1 2 0 1]"
  by (simp add: evaluateConfluence_def createSignal_def)

end
